theory Spec2Isabelle
  imports Complex_Main "HOL-Library.Multiset" "HOL-Library.AList"
begin

section \<open>Values that cross the boundary between the Node.js layer and the Rust core\<close>

text \<open>
  The JavaScript sources (the FFI bridge \<^verbatim>\<open>RustBridge\<close>, the Express controllers, the
  Joi validation schemas and the SDK client) are embedded as HOL functions. JavaScript
  numbers are modelled as reals, or as integers where the code only counts with them
  (limits, attempts, status codes, milliseconds), strings as \<^typ>\<open>string\<close> (one character per code
  unit, so that the length of the list is the \<^verbatim>\<open>.length\<close> of the JavaScript string;
  code units from 256 on have no counterpart), a value that may be \<^verbatim>\<open>undefined\<close> or
  \<^verbatim>\<open>null\<close> as an \<^typ>\<open>'a option\<close>, and a thrown \<^verbatim>\<open>Error\<close> as the left injection of
  a sum. Of a response the status and the data are kept; the \<^verbatim>\<open>success\<close> flag where it
  is constant, the \<^verbatim>\<open>message\<close> text, fields that only carry the wall clock
  (\<^verbatim>\<open>new Date().toISOString()\<close>) and console output are left out.
\<close>

text \<open>A thrown error: its message and, for errors made by \<^verbatim>\<open>createError\<close>, code and status.\<close>

record js_error =
  err_message :: string
  err_code :: "string option"
  err_status :: "int option"

definition Error :: "string \<Rightarrow> js_error" where
  "Error msg = \<lparr>err_message = msg, err_code = None, err_status = None\<rparr>"

text \<open>\<^verbatim>\<open>createError(message, code, statusCode, details)\<close> of errorHandler.js.\<close>

definition createError :: "string \<Rightarrow> string \<Rightarrow> int \<Rightarrow> js_error" where
  "createError msg c st = \<lparr>err_message = msg, err_code = Some c, err_status = Some st\<rparr>"

text \<open>
  A memory object as the bridge reads it out of the JSON text the core returns. A
  timestamp is modelled by the instant that \<^verbatim>\<open>new Date(timestamp)\<close> denotes, in
  milliseconds; \<open>None\<close> is an Invalid Date (the value is \<^verbatim>\<open>undefined\<close> or does not
  parse), whose comparisons are all false.
\<close>

record memory =
  mem_id :: string
  mem_userId :: string
  mem_sessionId :: string
  mem_content :: string
  mem_importance :: real
  mem_timestamp :: "int option"

text \<open>
  What a string-typed FFI call hands back, seen through \<^verbatim>\<open>if (!result)\<close> and
  \<^verbatim>\<open>JSON.parse(result)\<close>: a null pointer or empty string (\<open>FfiNull\<close>), a text that
  \<^verbatim>\<open>JSON.parse\<close> rejects with a SyntaxError carrying the given message
  (\<open>FfiMalformed\<close>), or a text that parses to a value of the expected shape.
\<close>

datatype 'a ffi = FfiNull | FfiMalformed string | FfiJson 'a

text \<open>The session digest returned by \<^verbatim>\<open>mindcache_summarize\<close>, parsed; the controllers pass
  it on unread.\<close>

record summary =
  sum_sessionId :: string
  sum_userId :: string
  sum_memoryCount :: nat
  sum_importance :: real

text \<open>
  The native library, as declared by \<^verbatim>\<open>ffi.Library\<close> in the bridge. Its code is not part
  of the JavaScript sources, so the entry points are parameters of the model; every call
  takes the state behind \<^verbatim>\<open>cachePtr\<close> and returns the new one. String arguments may be
  \<^verbatim>\<open>undefined\<close> on the JavaScript side.
\<close>

record 'c core =
  mindcache_save ::
    "'c \<Rightarrow> string option \<Rightarrow> string option \<Rightarrow> string option \<Rightarrow> string \<Rightarrow> string option \<times> 'c"
  mindcache_recall ::
    "'c \<Rightarrow> string option \<Rightarrow> string option \<Rightarrow> string option \<Rightarrow> int \<Rightarrow> memory list ffi \<times> 'c"
  mindcache_summarize ::
    "'c \<Rightarrow> string option \<Rightarrow> summary ffi \<times> 'c"

text \<open>\<^verbatim>\<open>error.message || 'default'\<close>, as the \<^verbatim>\<open>catch\<close> blocks of the controllers write it.\<close>

definition message_or :: "js_error \<Rightarrow> string \<Rightarrow> string" where
  "message_or e d = (if err_message e = [] then d else err_message e)"

section \<open>The bridge (RustBridge)\<close>

text \<open>
  The bridge object is modelled by \<^typ>\<open>'c option\<close>: \<open>None\<close> when
  \<^verbatim>\<open>ensureInitialized\<close> would throw (not initialised, or no cache pointer), \<open>Some c\<close>
  when the pointer leads to the core state \<open>c\<close>.
\<close>

definition not_initialized :: js_error where
  "not_initialized = Error ''Rust bridge not initialized. Call initialize() first.''"

text \<open>The filter object handed to \<^verbatim>\<open>recallMemories\<close>.\<close>

record recall_filter =
  flt_userId :: "string option"
  flt_query :: "string option"
  flt_sessionId :: "string option"
  flt_dateFrom :: "int option"
  flt_dateTo :: "int option"
  flt_limit :: "int option"
  flt_minImportance :: "real option"
  flt_keywords :: "string list option"

text \<open>
  \<^verbatim>\<open>RustBridge.recallMemories(filter)\<close>: only \<^verbatim>\<open>userId\<close>, \<^verbatim>\<open>query\<close>,
  \<^verbatim>\<open>sessionId\<close> and \<^verbatim>\<open>limit\<close> (default 50) are taken out of the filter.
\<close>

definition recallMemories ::
  "'c core \<Rightarrow> 'c option \<Rightarrow> recall_filter \<Rightarrow> (js_error + memory list) \<times> 'c option" where
  "recallMemories core b flt =
     (case b of
        None \<Rightarrow> (Inl not_initialized, None)
      | Some c \<Rightarrow>
          (case mindcache_recall core c (flt_userId flt) (flt_query flt)
                  (flt_sessionId flt)
                  (case flt_limit flt of None \<Rightarrow> 50 | Some l \<Rightarrow> l) of
             (FfiNull, c') \<Rightarrow> (Inr [], Some c')
           | (FfiMalformed msg, c') \<Rightarrow>
               (Inl (Error (''Failed to recall memories: '' @ msg)), Some c')
           | (FfiJson memories, c') \<Rightarrow> (Inr memories, Some c')))"

section \<open>The memory controller\<close>

text \<open>JavaScript's \<^verbatim>\<open>x || y\<close> on an optional string and on an optional number.\<close>

definition str_or_null :: "string option \<Rightarrow> string option" where
  "str_or_null s = (case s of None \<Rightarrow> None | Some t \<Rightarrow> if t = [] then None else Some t)"

definition num_or_null :: "real option \<Rightarrow> real option" where
  "num_or_null x = (case x of None \<Rightarrow> None | Some r \<Rightarrow> if r = 0 then None else Some r)"

definition int_or :: "int option \<Rightarrow> int \<Rightarrow> int" where
  "int_or x d = (case x of None \<Rightarrow> d | Some n \<Rightarrow> if n = 0 then d else n)"

text \<open>The body of \<^verbatim>\<open>POST /api/memory/recall\<close>.\<close>

record recall_body =
  rb_userId :: "string option"
  rb_query :: "string option"
  rb_sessionId :: "string option"
  rb_dateFrom :: "int option"
  rb_dateTo :: "int option"
  rb_limit :: "int option"
  rb_minImportance :: "real option"
  rb_keywords :: "string list option"

record recall_data =
  rd_memories :: "memory list"
  rd_count :: nat
  rd_userId :: "string option"
  rd_query :: "string option"
  rd_sessionId :: "string option"
  rd_limit :: int

definition build_filter :: "recall_body \<Rightarrow> recall_filter" where
  "build_filter body =
     \<lparr>flt_userId = rb_userId body,
      flt_query = str_or_null (rb_query body),
      flt_sessionId = str_or_null (rb_sessionId body),
      flt_dateFrom = rb_dateFrom body,
      flt_dateTo = rb_dateTo body,
      flt_limit = Some (int_or (rb_limit body) 50),
      flt_minImportance = num_or_null (rb_minImportance body),
      flt_keywords = rb_keywords body\<rparr>"

text \<open>
  The controller \<^verbatim>\<open>recallMemories\<close>: status and data of the JSON response, or the
  error passed on to the error handler.
\<close>

definition recallMemories_ctl ::
  "'c core \<Rightarrow> 'c option \<Rightarrow> recall_body \<Rightarrow> (js_error + int \<times> recall_data) \<times> 'c option" where
  "recallMemories_ctl core b body =
     (let flt = build_filter body in
      case recallMemories core b flt of
        (Inr memories, b') \<Rightarrow>
          (Inr (200,
             \<lparr>rd_memories = memories, rd_count = length memories,
              rd_userId = rb_userId body, rd_query = rb_query body,
              rd_sessionId = rb_sessionId body,
              rd_limit = (case flt_limit flt of None \<Rightarrow> 50 | Some l \<Rightarrow> l)\<rparr>), b')
      | (Inl e, b') \<Rightarrow>
          (Inl (createError (message_or e ''Failed to recall memories'')
                  ''MEMORY_RECALL_ERROR'' 500), b'))"

text \<open>The argument object of \<^verbatim>\<open>RustBridge.saveMemory\<close>. \<open>sa_metadata\<close> is the JSON
  text of the metadata object.\<close>

record save_args =
  sa_userId :: "string option"
  sa_sessionId :: "string option"
  sa_content :: "string option"
  sa_metadata :: "string option"
  sa_importance :: "real option"
  sa_ttlHours :: "real option"

definition save_failed :: js_error where
  "save_failed = Error ''Failed to save memory: Failed to save memory - no result returned''"

text \<open>
  \<^verbatim>\<open>RustBridge.saveMemory\<close>: the metadata defaults to \<^verbatim>\<open>{}\<close> and is stringified;
  \<^verbatim>\<open>mindcache_save\<close> receives the pointer, the user id, the session id, the content and
  the metadata text. A null or empty result is thrown as an error, anything else is the
  memory id.
\<close>

definition saveMemory ::
  "'c core \<Rightarrow> 'c option \<Rightarrow> save_args \<Rightarrow> (js_error + string) \<times> 'c option" where
  "saveMemory core b a =
     (case b of
        None \<Rightarrow> (Inl not_initialized, None)
      | Some c \<Rightarrow>
          (case mindcache_save core c (sa_userId a) (sa_sessionId a) (sa_content a)
                  (case sa_metadata a of None \<Rightarrow> ''{}'' | Some j \<Rightarrow> j) of
             (None, c') \<Rightarrow> (Inl save_failed, Some c')
           | (Some result, c') \<Rightarrow>
               if result = [] then (Inl save_failed, Some c') else (Inr result, Some c')))"

text \<open>The body of \<^verbatim>\<open>POST /api/memory/save\<close> and of one entry of a bulk save.\<close>

record save_body =
  sb_userId :: "string option"
  sb_sessionId :: "string option"
  sb_content :: "string option"
  sb_metadata :: "string option"
  sb_importance :: "real option"
  sb_ttlHours :: "real option"

record save_data =
  sd_memoryId :: string
  sd_userId :: "string option"
  sd_sessionId :: "string option"

text \<open>
  \<^verbatim>\<open>String.prototype.trim\<close> leaves nothing: every character is white space or a line
  terminator (among the characters below 256: tab, line feed, vertical tab, form feed,
  carriage return, space and no-break space).
\<close>

definition is_space :: "char \<Rightarrow> bool" where
  "is_space ch =
     (ch \<in> {CHR '' '', CHR 0x09, CHR 0x0A, CHR 0x0B, CHR 0x0C, CHR 0x0D, CHR 0xA0})"

definition trim_empty :: "string \<Rightarrow> bool" where
  "trim_empty s = list_all is_space s"

definition or_default :: "real option \<Rightarrow> real \<Rightarrow> real" where
  "or_default x d = (case x of None \<Rightarrow> d | Some r \<Rightarrow> if r = 0 then d else r)"

definition save_args_of :: "save_body \<Rightarrow> save_args" where
  "save_args_of body =
     \<lparr>sa_userId = sb_userId body,
      sa_sessionId = sb_sessionId body,
      sa_content = sb_content body,
      sa_metadata = Some (case sb_metadata body of None \<Rightarrow> ''{}'' | Some j \<Rightarrow> j),
      sa_importance = Some (or_default (sb_importance body) 0.5),
      sa_ttlHours = num_or_null (sb_ttlHours body)\<rparr>"

text \<open>
  The controller \<^verbatim>\<open>saveMemory\<close>. The \<^verbatim>\<open>MISSING_SESSION_ID\<close> error is thrown inside
  the \<^verbatim>\<open>try\<close> block, so the \<^verbatim>\<open>catch\<close> block turns it, like every bridge error, into
  a \<^verbatim>\<open>MEMORY_SAVE_ERROR\<close> with status 500 and the same message.
\<close>

definition saveMemory_ctl ::
  "'c core \<Rightarrow> 'c option \<Rightarrow> save_body \<Rightarrow> (js_error + int \<times> save_data) \<times> 'c option" where
  "saveMemory_ctl core b body =
     (if (case sb_sessionId body of None \<Rightarrow> True | Some sid \<Rightarrow> sid = [] \<or> trim_empty sid)
      then (Inl (createError ''Session ID is required'' ''MEMORY_SAVE_ERROR'' 500), b)
      else
        (case saveMemory core b (save_args_of body) of
           (Inr memoryId, b') \<Rightarrow>
             (Inr (201, \<lparr>sd_memoryId = memoryId, sd_userId = sb_userId body,
                         sd_sessionId = sb_sessionId body\<rparr>), b')
         | (Inl e, b') \<Rightarrow>
             (Inl (createError (message_or e ''Failed to save memory'') ''MEMORY_SAVE_ERROR'' 500),
              b')))"

section \<open>Request validation (schemas.memorySave)\<close>

text \<open>
  The Joi rules the schema uses, on typed input: one detail \<open>(field, type)\<close> per violated
  rule, since the validator runs with \<^verbatim>\<open>abortEarly: false\<close>. A required string that is
  missing is \<^verbatim>\<open>any.required\<close>, an empty one \<^verbatim>\<open>string.empty\<close>; \<^verbatim>\<open>min\<close> and \<^verbatim>\<open>max\<close>
  compare the \<^verbatim>\<open>.length\<close> of the string. In a body, \<open>None\<close> is a key that is absent;
  values of another JSON type than the schema's (a \<^verbatim>\<open>null\<close>, a number for a string) are
  outside the model. Numbers beyond the safe integer range, which Joi reports as
  \<^verbatim>\<open>number.unsafe\<close>, lie outside both numeric ranges of the schema and are reported
  here by the violated bound.
\<close>

type_synonym detail = "string \<times> string"

definition joi_string :: "string \<Rightarrow> nat \<Rightarrow> nat \<Rightarrow> string option \<Rightarrow> detail list" where
  "joi_string field lo hi v =
     (case v of
        None \<Rightarrow> [(field, ''any.required'')]
      | Some s \<Rightarrow>
          if s = [] then [(field, ''string.empty'')]
          else (if length s < lo then [(field, ''string.min'')] else [])
             @ (if hi < length s then [(field, ''string.max'')] else []))"

definition joi_number :: "string \<Rightarrow> bool \<Rightarrow> real \<Rightarrow> real \<Rightarrow> real option \<Rightarrow> detail list" where
  "joi_number field whole lo hi v =
     (case v of
        None \<Rightarrow> []
      | Some x \<Rightarrow>
          (if whole \<and> x \<notin> \<int> then [(field, ''number.integer'')] else [])
        @ (if x < lo then [(field, ''number.min'')] else [])
        @ (if hi < x then [(field, ''number.max'')] else []))"

text \<open>\<^verbatim>\<open>schemas.memorySave\<close>, key by key.\<close>

definition memorySave_details :: "save_body \<Rightarrow> detail list" where
  "memorySave_details body =
     joi_string ''userId'' 1 255 (sb_userId body)
   @ joi_string ''sessionId'' 1 255 (sb_sessionId body)
   @ joi_string ''content'' 1 100000 (sb_content body)
   @ joi_number ''importance'' False 0 1 (sb_importance body)
   @ joi_number ''ttlHours'' True 1 8760 (sb_ttlHours body)"

text \<open>
  \<^verbatim>\<open>createValidator(schemas.memorySave)\<close>: with an error the middleware answers 400
  \<^verbatim>\<open>VALIDATION_ERROR\<close> with the details (\<open>Inl\<close>); otherwise the validated body replaces
  \<^verbatim>\<open>req.body\<close> and the next handler runs (\<open>Inr\<close>).
\<close>

definition validateMemorySave :: "save_body \<Rightarrow> detail list + save_body" where
  "validateMemorySave body =
     (case memorySave_details body of [] \<Rightarrow> Inr body | d # ds \<Rightarrow> Inl (d # ds))"

text \<open>
  A request to \<^verbatim>\<open>POST /api/memory/save\<close>: \<open>req_id\<close> is the request id
  (\<^verbatim>\<open>req.id\<close>), \<open>req_body\<close> the parsed body. The route runs
  \<^verbatim>\<open>validateMemorySave\<close> and then the controller.
\<close>

record save_request =
  req_id :: "string option"
  req_body :: save_body

datatype save_response = Saved save_data | ValidationFailed "detail list"

definition post_memory_save ::
  "'c core \<Rightarrow> 'c option \<Rightarrow> save_request \<Rightarrow> (js_error + int \<times> save_response) \<times> 'c option" where
  "post_memory_save core b req =
     (case validateMemorySave (req_body req) of
        Inl details \<Rightarrow> (Inr (400, ValidationFailed details), b)
      | Inr body \<Rightarrow>
          (case saveMemory_ctl core b body of
             (Inl e, b') \<Rightarrow> (Inl e, b')
           | (Inr (st, d), b') \<Rightarrow> (Inr (st, Saved d), b')))"

section \<open>The SDK client (MindCacheSDK)\<close>

text \<open>Decimal numerals, as template strings print a number.\<close>

fun digit_char :: "nat \<Rightarrow> char" where
  "digit_char n = char_of (48 + n)"

fun decimal :: "nat \<Rightarrow> string" where
  "decimal n = (if n < 10 then [digit_char n] else decimal (n div 10) @ [digit_char (n mod 10)])"

declare decimal.simps [simp del]

text \<open>
  An error caught in \<^verbatim>\<open>request\<close>: a \<^verbatim>\<open>MindCacheError\<close> carries a status, any other
  error has none.
\<close>

record sdk_error =
  se_message :: string
  se_status :: "int option"

text \<open>
  What one attempt can meet: a response that is ok and parses (\<open>Ok\<close>), a response that is
  ok whose body \<^verbatim>\<open>response.json()\<close> rejects, a response that is not ok (its status and
  the message read from its body), a rejected \<^verbatim>\<open>fetch\<close>, or the abort raised by the
  timeout of \<^verbatim>\<open>fetchWithTimeout\<close>.
\<close>

datatype failure =
    BadJson string
  | HttpError int string
  | NetworkError string
  | Aborted

datatype 'r outcome = Ok 'r | Fails failure

text \<open>The constructor: \<^verbatim>\<open>options.timeout || 30000\<close>, \<^verbatim>\<open>options.retries || 3\<close>.\<close>

record sdk_options =
  opt_timeout :: "int option"
  opt_retries :: "int option"

record sdk =
  sdk_timeout :: int
  sdk_retries :: int

definition MindCacheSDK :: "sdk_options \<Rightarrow> sdk" where
  "MindCacheSDK options =
     \<lparr>sdk_timeout = int_or (opt_timeout options) 30000,
      sdk_retries = int_or (opt_retries options) 3\<rparr>"

text \<open>
  An integer as a template string prints it: a minus sign before the digits of a negative
  one. (The timeout is taken to be a safe integer, below \<open>2 ^ 53\<close> in magnitude, where the
  printed digits are the exact value.)
\<close>

definition number_text :: "int \<Rightarrow> string" where
  "number_text i = (if i < 0 then CHR ''-'' # decimal (nat (- i)) else decimal (nat i))"

text \<open>
  The error object the \<^verbatim>\<open>catch\<close> block receives; for an abort it is the
  \<^verbatim>\<open>MindCacheError\<close> of \<^verbatim>\<open>fetchWithTimeout\<close>,
  \<^verbatim>\<open>Request timeout after ${this.timeout}ms\<close> with status 0.
\<close>

definition thrown :: "sdk \<Rightarrow> failure \<Rightarrow> sdk_error" where
  "thrown s f =
     (case f of
        BadJson msg \<Rightarrow> \<lparr>se_message = msg, se_status = None\<rparr>
      | HttpError st msg \<Rightarrow> \<lparr>se_message = msg, se_status = Some st\<rparr>
      | NetworkError msg \<Rightarrow> \<lparr>se_message = msg, se_status = None\<rparr>
      | Aborted \<Rightarrow>
          \<lparr>se_message = ''Request timeout after '' @ number_text (sdk_timeout s) @ ''ms'',
           se_status = Some 0\<rparr>)"

text \<open>\<^verbatim>\<open>error.status && error.status >= 400 && error.status < 500\<close>.\<close>

definition client_error :: "sdk_error \<Rightarrow> bool" where
  "client_error e =
     (case se_status e of None \<Rightarrow> False | Some st \<Rightarrow> st \<noteq> 0 \<and> 400 \<le> st \<and> st < 500)"

text \<open>\<^verbatim>\<open>Math.min(1000 * Math.pow(2, attempt - 1), 10000)\<close>.\<close>

definition backoff :: "int \<Rightarrow> int" where
  "backoff attempt = min (1000 * 2 ^ nat (attempt - 1)) 10000"

text \<open>
  The retry loop of \<^verbatim>\<open>request\<close>, from attempt number \<open>attempt\<close> on. \<open>fetch k\<close> is what
  the \<open>k\<close>-th attempt meets. The result is the response data or the thrown
  \<^verbatim>\<open>lastError\<close> (\<open>None\<close> when no attempt was made), the delays waited, in order and in
  milliseconds, and the number of attempts made.
\<close>

function request_from ::
  "sdk \<Rightarrow> (int \<Rightarrow> 'r outcome) \<Rightarrow> int \<Rightarrow> sdk_error option \<Rightarrow> int list \<Rightarrow> nat
     \<Rightarrow> (sdk_error option + 'r) \<times> int list \<times> nat" where
  "request_from s fetch attempt lastError delays made =
     (if attempt \<le> sdk_retries s then
        (case fetch attempt of
           Ok r \<Rightarrow> (Inr r, delays, Suc made)
         | Fails f \<Rightarrow>
             if client_error (thrown s f) then (Inl (Some (thrown s f)), delays, Suc made)
             else if attempt < sdk_retries s
               then request_from s fetch (attempt + 1) (Some (thrown s f))
                      (delays @ [backoff attempt]) (Suc made)
               else request_from s fetch (attempt + 1) (Some (thrown s f)) delays (Suc made))
      else (Inl lastError, delays, made))"
  by pat_completeness auto
termination
  by (relation "measure (\<lambda>(s, fetch, attempt, lastError, delays, made). nat (sdk_retries s + 1 - attempt))") auto

declare request_from.simps [simp del]

definition request :: "sdk \<Rightarrow> (int \<Rightarrow> 'r outcome) \<Rightarrow> (sdk_error option + 'r) \<times> int list \<times> nat" where
  "request s fetch = request_from s fetch 1 None [] 0"

section \<open>Bulk save\<close>

text \<open>One entry of \<^verbatim>\<open>results\<close> and one of \<^verbatim>\<open>errors\<close>.\<close>

record bulk_result =
  br_index :: nat
  br_memoryId :: string
  br_userId :: "string option"
  br_sessionId :: "string option"

record bulk_error =
  be_index :: nat
  be_error :: string
  be_memory :: "save_body option"

text \<open>The message of the TypeError raised by \<^verbatim>\<open>memory.userId\<close> on a \<^verbatim>\<open>null\<close> entry.\<close>

definition null_entry :: string where
  "null_entry = ''Cannot read properties of null (reading 'userId')''"

text \<open>
  The loop of \<^verbatim>\<open>bulkSaveMemories\<close> from index \<open>i\<close> on. The route mounts no validator, so
  an entry of the array may be \<^verbatim>\<open>null\<close> (\<open>None\<close>) and any field of an entry may be
  missing. Each entry is saved through the bridge inside its own \<^verbatim>\<open>try\<close> block: a
  success is pushed to \<^verbatim>\<open>results\<close>, a failure to \<^verbatim>\<open>errors\<close>, and the loop goes on.
\<close>

fun bulk_loop ::
  "'c core \<Rightarrow> 'c option \<Rightarrow> nat \<Rightarrow> save_body option list \<Rightarrow> bulk_result list \<Rightarrow> bulk_error list
     \<Rightarrow> bulk_result list \<times> bulk_error list \<times> 'c option" where
  "bulk_loop core b i [] results errors = (results, errors, b)"
| "bulk_loop core b i (m # ms) results errors =
     (case m of
        None \<Rightarrow>
          bulk_loop core b (Suc i) ms results
            (errors @ [\<lparr>be_index = i, be_error = null_entry, be_memory = None\<rparr>])
      | Some memory \<Rightarrow>
          (case saveMemory core b (save_args_of memory) of
             (Inr memoryId, b') \<Rightarrow>
               bulk_loop core b' (Suc i) ms
                 (results @ [\<lparr>br_index = i, br_memoryId = memoryId,
                               br_userId = sb_userId memory,
                               br_sessionId = sb_sessionId memory\<rparr>])
                 errors
           | (Inl e, b') \<Rightarrow>
               bulk_loop core b' (Suc i) ms results
                 (errors @ [\<lparr>be_index = i, be_error = err_message e, be_memory = Some memory\<rparr>])))"

record bulk_summary =
  bs_total :: nat
  bs_successful :: nat
  bs_failed :: nat

record bulk_data =
  bd_success :: bool
  bd_results :: "bulk_result list"
  bd_summary :: bulk_summary
  bd_errors :: "bulk_error list option"

text \<open>
  The controller \<^verbatim>\<open>bulkSaveMemories\<close> for a body whose \<^verbatim>\<open>memories\<close> is an array: the
  status (207 for a partial failure, 400 when every entry failed, 201 otherwise) and the
  response data; \<^verbatim>\<open>errors\<close> is included only when there are any.
\<close>

definition bulkSaveMemories ::
  "'c core \<Rightarrow> 'c option \<Rightarrow> save_body option list \<Rightarrow> (int \<times> bulk_data) \<times> 'c option" where
  "bulkSaveMemories core b memories =
     (case bulk_loop core b 0 memories [] [] of
        (results, errors, b') \<Rightarrow>
          ((if errors \<noteq> [] \<and> results \<noteq> [] then 207 else if errors \<noteq> [] then 400 else 201,
            \<lparr>bd_success = (errors = []),
             bd_results = results,
             bd_summary = \<lparr>bs_total = length memories, bs_successful = length results,
                            bs_failed = length errors\<rparr>,
             bd_errors = (if errors \<noteq> [] then Some errors else None)\<rparr>),
           b'))"

definition errors_of :: "bulk_data \<Rightarrow> bulk_error list" where
  "errors_of d = (case bd_errors d of None \<Rightarrow> [] | Some es \<Rightarrow> es)"

text \<open>
  The words of the claim, to compare with the loop: the bridge state after the entries
  \<open>ms\<close> were attempted one after the other from the state \<open>b\<close>, each through
  \<^verbatim>\<open>rustBridge.saveMemory\<close> in the state the entries before it have left, whatever
  their outcomes. A \<^verbatim>\<open>null\<close> entry fails before it reaches the bridge.
\<close>

definition attempted :: "'c core \<Rightarrow> 'c option \<Rightarrow> save_body option list \<Rightarrow> 'c option" where
  "attempted core b ms =
     foldl (\<lambda>b m. case m of None \<Rightarrow> b
                   | Some memory \<Rightarrow> snd (saveMemory core b (save_args_of memory))) b ms"

section \<open>Sessions, rebuilt from memories\<close>

text \<open>
  A session object as the bridge builds it; the constant fields (\<^verbatim>\<open>name: null\<close>,
  \<^verbatim>\<open>tags: []\<close>, \<^verbatim>\<open>metadata: {}\<close>) are left out.
\<close>

record session =
  ses_id :: string
  ses_userId :: string
  ses_createdAt :: "int option"
  ses_lastActive :: "int option"
  ses_memoryCount :: nat

text \<open>\<^verbatim>\<open>new Date(a) > new Date(b)\<close> and \<^verbatim>\<open>new Date(a) < new Date(b)\<close>.\<close>

definition date_gt :: "int option \<Rightarrow> int option \<Rightarrow> bool" where
  "date_gt a b = (case (a, b) of (Some x, Some y) \<Rightarrow> y < x | _ \<Rightarrow> False)"

definition date_lt :: "int option \<Rightarrow> int option \<Rightarrow> bool" where
  "date_lt a b = (case (a, b) of (Some x, Some y) \<Rightarrow> x < y | _ \<Rightarrow> False)"

text \<open>The entry \<^verbatim>\<open>sessionMap.set\<close> stores for a session id seen for the first time.\<close>

definition new_session :: "memory \<Rightarrow> session" where
  "new_session m =
     \<lparr>ses_id = mem_sessionId m, ses_userId = mem_userId m,
      ses_createdAt = mem_timestamp m, ses_lastActive = mem_timestamp m,
      ses_memoryCount = 0\<rparr>"

text \<open>The updates of the entry for one memory: the count, then the last-active time, then
  the creation time.\<close>

definition count_memory :: "memory \<Rightarrow> session \<Rightarrow> session" where
  "count_memory m s =
     (let s1 = s\<lparr>ses_memoryCount := ses_memoryCount s + 1\<rparr>;
          s2 = (if date_gt (mem_timestamp m) (ses_lastActive s1)
                then s1\<lparr>ses_lastActive := mem_timestamp m\<rparr> else s1)
      in if date_lt (mem_timestamp m) (ses_createdAt s2)
         then s2\<lparr>ses_createdAt := mem_timestamp m\<rparr> else s2)"

text \<open>
  One round of \<^verbatim>\<open>memories.forEach\<close>. The \<^verbatim>\<open>Map\<close> is an association list in insertion
  order: a new key is appended, an existing entry is updated in place.
\<close>

definition group_memory :: "(string \<times> session) list \<Rightarrow> memory \<Rightarrow> (string \<times> session) list" where
  "group_memory sessionMap m =
     AList.map_entry (mem_sessionId m) (count_memory m)
       (if map_of sessionMap (mem_sessionId m) = None
        then sessionMap @ [(mem_sessionId m, new_session m)]
        else sessionMap)"

text \<open>The filter \<^verbatim>\<open>{ userId, limit: 10000 }\<close>.\<close>

definition user_filter :: "string \<Rightarrow> recall_filter" where
  "user_filter userId =
     \<lparr>flt_userId = Some userId, flt_query = None, flt_sessionId = None, flt_dateFrom = None,
      flt_dateTo = None, flt_limit = Some 10000, flt_minImportance = None,
      flt_keywords = None\<rparr>"

text \<open>\<^verbatim>\<open>RustBridge.getUserSessions\<close>: \<^verbatim>\<open>Array.from(sessionMap.values())\<close> of the grouped
  recall.\<close>

definition getUserSessions ::
  "'c core \<Rightarrow> 'c option \<Rightarrow> string \<Rightarrow> (js_error + session list) \<times> 'c option" where
  "getUserSessions core b userId =
     (case b of
        None \<Rightarrow> (Inl not_initialized, None)
      | Some c \<Rightarrow>
          (case recallMemories core b (user_filter userId) of
             (Inr memories, b') \<Rightarrow> (Inr (map snd (foldl group_memory [] memories)), b')
           | (Inl e, b') \<Rightarrow>
               (Inl (Error (''Failed to get user sessions: '' @ err_message e)), b')))"


text \<open>The filters \<^verbatim>\<open>{ sessionId, limit: 1 }\<close> and \<^verbatim>\<open>{ userId, sessionId, limit: 10000 }\<close>.\<close>

definition session_filter :: "string option \<Rightarrow> string \<Rightarrow> int \<Rightarrow> recall_filter" where
  "session_filter userId sessionId limit =
     \<lparr>flt_userId = userId, flt_query = None, flt_sessionId = Some sessionId,
      flt_dateFrom = None, flt_dateTo = None, flt_limit = Some limit,
      flt_minImportance = None, flt_keywords = None\<rparr>"

definition get_session_failed :: "js_error \<Rightarrow> js_error" where
  "get_session_failed e = Error (''Failed to get session: '' @ err_message e)"

text \<open>
  \<^verbatim>\<open>RustBridge.getSession\<close>: a first recall by session id alone finds the owner, a second
  one counts the memories; \<^verbatim>\<open>null\<close> (\<open>Inr None\<close>) when the first recall is empty.
\<close>

definition getSession ::
  "'c core \<Rightarrow> 'c option \<Rightarrow> string \<Rightarrow> (js_error + session option) \<times> 'c option" where
  "getSession core b sessionId =
     (case b of
        None \<Rightarrow> (Inl not_initialized, None)
      | Some c \<Rightarrow>
          (case recallMemories core b (session_filter None sessionId 1) of
             (Inl e, b1) \<Rightarrow> (Inl (get_session_failed e), b1)
           | (Inr [], b1) \<Rightarrow> (Inr None, b1)
           | (Inr (first # rest), b1) \<Rightarrow>
               (case recallMemories core b1
                       (session_filter (Some (mem_userId first)) sessionId 10000) of
                  (Inl e, b2) \<Rightarrow> (Inl (get_session_failed e), b2)
                | (Inr allMemories, b2) \<Rightarrow>
                    (Inr (Some
                       \<lparr>ses_id = sessionId, ses_userId = mem_userId first,
                        ses_createdAt =
                          (if allMemories = [] then None else mem_timestamp (last allMemories)),
                        ses_lastActive =
                          (case allMemories of [] \<Rightarrow> None | m # ms \<Rightarrow> mem_timestamp m),
                        ses_memoryCount = length allMemories\<rparr>), b2))))"

text \<open>
  \<^verbatim>\<open>RustBridge.deleteSession\<close>, which the source marks as a placeholder: it looks the
  session up and reports its memory count; no entry point of the native library is called
  besides the recalls of the lookup.
\<close>

record deletion =
  del_sessionId :: string
  del_memoriesDeleted :: nat

definition deleteSession ::
  "'c core \<Rightarrow> 'c option \<Rightarrow> string \<Rightarrow> (js_error + deletion) \<times> 'c option" where
  "deleteSession core b sessionId =
     (case getSession core b sessionId of
        (Inl e, b') \<Rightarrow> (Inl e, b')
      | (Inr None, b') \<Rightarrow> (Inl (Error ''Session not found''), b')
      | (Inr (Some session), b') \<Rightarrow>
          (Inr \<lparr>del_sessionId = sessionId, del_memoriesDeleted = ses_memoryCount session\<rparr>, b'))"

section \<open>The session controller: deleteSession\<close>

text \<open>A \<^verbatim>\<open>DELETE /api/sessions/:userId/:sessionId\<close> request with its \<^verbatim>\<open>confirm\<close> query
  parameter, and the data of the answer.\<close>

record delete_request =
  dr_userId :: string
  dr_sessionId :: string
  dr_confirm :: "string option"

record delete_data =
  dd_sessionId :: string
  dd_userId :: string
  dd_memoriesDeleted :: nat

definition confirmation_required :: js_error where
  "confirmation_required =
     createError ''Session deletion requires confirmation. Add ?confirm=true to the request''
       ''CONFIRMATION_REQUIRED'' 400"

definition session_not_found :: js_error where
  "session_not_found = createError ''Session not found'' ''SESSION_NOT_FOUND'' 404"

definition session_access_denied :: js_error where
  "session_access_denied =
     createError ''Session does not belong to this user'' ''SESSION_ACCESS_DENIED'' 403"

definition session_delete_error :: "js_error \<Rightarrow> js_error" where
  "session_delete_error e =
     createError (message_or e ''Failed to delete session'') ''SESSION_DELETE_ERROR'' 500"

text \<open>
  The controller \<^verbatim>\<open>deleteSession\<close>. The errors it creates itself are rethrown by its
  \<^verbatim>\<open>catch\<close> block as they are; any other error becomes \<^verbatim>\<open>SESSION_DELETE_ERROR\<close>.
\<close>

definition deleteSession_ctl ::
  "'c core \<Rightarrow> 'c option \<Rightarrow> delete_request \<Rightarrow> (js_error + int \<times> delete_data) \<times> 'c option" where
  "deleteSession_ctl core b req =
     (if dr_confirm req \<noteq> Some ''true'' then (Inl confirmation_required, b)
      else
        (case getSession core b (dr_sessionId req) of
           (Inl e, b1) \<Rightarrow> (Inl (session_delete_error e), b1)
         | (Inr None, b1) \<Rightarrow> (Inl session_not_found, b1)
         | (Inr (Some existingSession), b1) \<Rightarrow>
             if ses_userId existingSession \<noteq> dr_userId req
             then (Inl session_access_denied, b1)
             else
               (case deleteSession core b1 (dr_sessionId req) of
                  (Inl e, b2) \<Rightarrow> (Inl (session_delete_error e), b2)
                | (Inr deletionResult, b2) \<Rightarrow>
                    (Inr (200,
                       \<lparr>dd_sessionId = dr_sessionId req, dd_userId = dr_userId req,
                        dd_memoriesDeleted = del_memoriesDeleted deletionResult\<rparr>), b2))))"

section \<open>Session summaries\<close>

text \<open>\<^verbatim>\<open>RustBridge.summarizeSession\<close>.\<close>

definition summarizeSession ::
  "'c core \<Rightarrow> 'c option \<Rightarrow> string option \<Rightarrow> (js_error + summary) \<times> 'c option" where
  "summarizeSession core b sessionId =
     (case b of
        None \<Rightarrow> (Inl not_initialized, None)
      | Some c \<Rightarrow>
          (case mindcache_summarize core c sessionId of
             (FfiNull, c') \<Rightarrow>
               (Inl (Error ''Failed to generate summary: No summary generated''), Some c')
           | (FfiMalformed msg, c') \<Rightarrow>
               (Inl (Error (''Failed to generate summary: '' @ msg)), Some c')
           | (FfiJson s, c') \<Rightarrow> (Inr s, Some c')))"

text \<open>\<^verbatim>\<open>String.prototype.includes\<close>.\<close>

fun str_includes :: "string \<Rightarrow> string \<Rightarrow> bool" where
  "str_includes [] sub = (sub = [])"
| "str_includes (ch # s) sub = (take (length sub) (ch # s) = sub \<or> str_includes s sub)"

definition session_empty :: js_error where
  "session_empty = createError ''No memories found for this session'' ''SESSION_EMPTY'' 404"

text \<open>The controller \<^verbatim>\<open>summarizeSession\<close> (memory and session controllers have the same
  code).\<close>

definition summarizeSession_ctl ::
  "'c core \<Rightarrow> 'c option \<Rightarrow> string option \<Rightarrow> (js_error + int \<times> summary) \<times> 'c option" where
  "summarizeSession_ctl core b sessionId =
     (case summarizeSession core b sessionId of
        (Inr s, b') \<Rightarrow> (Inr (200, s), b')
      | (Inl e, b') \<Rightarrow>
          if err_message e \<noteq> [] \<and> str_includes (err_message e) ''No memories found''
          then (Inl session_empty, b')
          else (Inl (createError (message_or e ''Failed to generate session summary'')
                       ''SUMMARY_ERROR'' 500), b'))"

section \<open>An in-memory core\<close>

text \<open>
  Modelled from the spec: the Rust core behind the FFI entry points \<^verbatim>\<open>mindcache_save\<close>,
  \<^verbatim>\<open>mindcache_recall\<close> and \<^verbatim>\<open>mindcache_summarize\<close>, whose code is not among the
  sources. The theorems below hold for every core; this one serves to evaluate the
  JavaScript layer at concrete inputs. It follows the spec's store facade and query
  planner as far as they can be reached through the FFI signatures:
  \<^item> \<open>put\<close> assigns a fresh id (time-sortable: a counter padded to ten digits), stamps
    \<open>created_at\<close> with the clock, gives the default importance 0.5, and fails (a null
    result) for an empty or over-long user or session id, for a content that is empty or
    above 100 KiB and for metadata above 16 KiB;
  \<^item> \<open>recall\<close> keeps the memories of the given user and session, orders them by
    descending score \<open>0.55 * importance + 0.25 * exp (- age / half_life)\<close> with a
    half-life of 14 days, ties by \<open>created_at\<close> descending and then by id ascending
    (the store is kept in id order and both sorts are stable), and trims to the limit;
  \<^item> \<open>summarize\<close> fails (a null result) for a session without memories and otherwise
    reports the memory count and the mean importance.

  Left out: expiry, decay and eviction, the segment files, and the access metadata, which
  the spec calls advisory (the access count stays 0, so the access term of the score is 0).
  The text index is not modelled either: the spec fixes neither the stopword list nor the
  relevance measure, and a recall that carries a query gets a null result. Two calls of
  the bridge lie outside the spec's filter shape and are answered all the same: a recall
  without a user id places no restriction on the user, and a limit above 1000 is taken as
  it is.
\<close>

record store =
  st_memories :: "memory list"
  st_next :: nat
  st_now :: int

text \<open>Modelled from the spec: the id the absent core assigns to the \<open>n\<close>-th record
  (section 3: globally unique and lexicographically time-sortable).\<close>

definition record_id :: "nat \<Rightarrow> string" where
  "record_id n = ''mem_'' @ replicate (10 - length (decimal n)) CHR ''0'' @ decimal n"

text \<open>Modelled from the spec: \<open>put\<close> of the store facade (section 4.4) behind the absent
  \<^verbatim>\<open>mindcache_save\<close>, with the bounds of the data model (section 3).\<close>

definition mem_save ::
  "store \<Rightarrow> string option \<Rightarrow> string option \<Rightarrow> string option \<Rightarrow> string \<Rightarrow> string option \<times> store" where
  "mem_save c userId sessionId content metadataJson =
     (case (userId, sessionId, content) of
        (Some u, Some s, Some t) \<Rightarrow>
          if u = [] \<or> 255 < length u \<or> s = [] \<or> 255 < length s then (None, c)
          else if t = [] \<or> 100 * 1024 < length t \<or> 16 * 1024 < length metadataJson
            then (None, c)
          else
            (Some (record_id (st_next c)),
             c\<lparr>st_memories := st_memories c @
                  [\<lparr>mem_id = record_id (st_next c), mem_userId = u, mem_sessionId = s,
                    mem_content = t, mem_importance = 0.5,
                    mem_timestamp = Some (st_now c)\<rparr>],
               st_next := Suc (st_next c)\<rparr>)
      | _ \<Rightarrow> (None, c))"

text \<open>Modelled from the spec: the score of the absent query planner (section 4.5), without
  the text and access terms, and its order: score descending, then \<open>created_at\<close>
  descending, then id ascending.\<close>

definition created_at :: "memory \<Rightarrow> int" where
  "created_at m = (case mem_timestamp m of None \<Rightarrow> 0 | Some t \<Rightarrow> t)"

definition score :: "int \<Rightarrow> memory \<Rightarrow> real" where
  "score now m =
     0.55 * mem_importance m
     + 0.25 * exp (- real_of_int (now - created_at m) / (14 * 24 * 3600 * 1000))"

text \<open>Modelled from the spec: the user and session filters of the absent query planner
  (section 4.5).\<close>

definition selected :: "string option \<Rightarrow> string option \<Rightarrow> memory \<Rightarrow> bool" where
  "selected userId sessionId m =
     ((case userId of None \<Rightarrow> True | Some u \<Rightarrow> mem_userId m = u)
      \<and> (case sessionId of None \<Rightarrow> True | Some s \<Rightarrow> mem_sessionId m = s))"

text \<open>Modelled from the spec: the ranking of section 4.5, by two stable sorts of a list that
  is in id order.\<close>

definition ranked :: "int \<Rightarrow> memory list \<Rightarrow> memory list" where
  "ranked now ms = sort_key (\<lambda>m. - score now m) (sort_key (\<lambda>m. - created_at m) ms)"

text \<open>Modelled from the spec: \<open>recall\<close> (section 4.5) behind the absent
  \<^verbatim>\<open>mindcache_recall\<close>: select, rank, trim to the limit.\<close>

definition mem_recall ::
  "store \<Rightarrow> string option \<Rightarrow> string option \<Rightarrow> string option \<Rightarrow> int \<Rightarrow> memory list ffi \<times> store" where
  "mem_recall c userId query sessionId limit =
     (case query of
        Some q \<Rightarrow> (FfiNull, c)
      | None \<Rightarrow>
          (FfiJson (take (nat limit)
                      (ranked (st_now c) (filter (selected userId sessionId) (st_memories c)))),
           c))"

text \<open>Modelled from the spec: \<open>summarize\<close> (section 4.7) behind the absent
  \<^verbatim>\<open>mindcache_summarize\<close>: the error \<open>SessionEmpty\<close> for a session without memories,
  handed over as a null result, and otherwise the count and the mean importance.\<close>

definition mem_summarize :: "store \<Rightarrow> string option \<Rightarrow> summary ffi \<times> store" where
  "mem_summarize c sessionId =
     (case sessionId of
        None \<Rightarrow> (FfiNull, c)
      | Some s \<Rightarrow>
          (case filter (selected None (Some s)) (st_memories c) of
             [] \<Rightarrow> (FfiNull, c)
           | m # ms \<Rightarrow>
               (FfiJson
                  \<lparr>sum_sessionId = s, sum_userId = mem_userId m,
                   sum_memoryCount = length (m # ms),
                   sum_importance =
                     sum_list (map mem_importance (m # ms)) / real (length (m # ms))\<rparr>,
                c)))"

text \<open>Modelled from the spec: the absent native library, its three entry points together.\<close>

definition mem_core :: "store core" where
  "mem_core =
     \<lparr>mindcache_save = mem_save, mindcache_recall = mem_recall,
      mindcache_summarize = mem_summarize\<rparr>"


section \<open>The invariant of the grouping loop\<close>

text \<open>
  What the session map holds for the key \<open>k\<close> once the memories \<open>ms\<close> have been
  grouped, all of them with valid dates: the count of the memories of session \<open>k\<close>, and
  as creation and last-active time the least and the greatest of their dates.
\<close>

definition grouped :: "memory list \<Rightarrow> string \<Rightarrow> session \<Rightarrow> bool" where
  "grouped ms k s =
     (ses_id s = k
      \<and> ses_memoryCount s = length (filter (\<lambda>m. mem_sessionId m = k) ms)
      \<and> (\<exists>t. ses_createdAt s = Some t
             \<and> (\<exists>m \<in> set ms. mem_sessionId m = k \<and> mem_timestamp m = Some t)
             \<and> (\<forall>m \<in> set ms. mem_sessionId m = k \<longrightarrow> (\<exists>t'. mem_timestamp m = Some t' \<and> t \<le> t')))
      \<and> (\<exists>t. ses_lastActive s = Some t
             \<and> (\<exists>m \<in> set ms. mem_sessionId m = k \<and> mem_timestamp m = Some t)
             \<and> (\<forall>m \<in> set ms. mem_sessionId m = k \<longrightarrow> (\<exists>t'. mem_timestamp m = Some t' \<and> t' \<le> t))))"

text \<open>The session map after \<open>ms\<close>: one entry per session id that occurs in \<open>ms\<close>.\<close>

definition session_map_ok :: "memory list \<Rightarrow> (string \<times> session) list \<Rightarrow> bool" where
  "session_map_ok ms sm =
     (distinct (map fst sm) \<and> fst ` set sm = mem_sessionId ` set ms
      \<and> (\<forall>(k, s) \<in> set sm. grouped ms k s))"


section \<open>Example data\<close>

text \<open>
  A store with two sessions of user \<open>u2\<close>: \<open>s1\<close> with two memories (saved at 1000 ms and
  3000 ms) and \<open>s2\<close> with one (saved at 2000 ms); the clock stands at 5000 ms.
\<close>

definition mem_a :: memory where
  "mem_a = \<lparr>mem_id = ''mem_0000000000'', mem_userId = ''u2'', mem_sessionId = ''s1'',
            mem_content = ''first'', mem_importance = 0.5, mem_timestamp = Some 1000\<rparr>"

definition mem_b :: memory where
  "mem_b = \<lparr>mem_id = ''mem_0000000001'', mem_userId = ''u2'', mem_sessionId = ''s2'',
            mem_content = ''second'', mem_importance = 0.5, mem_timestamp = Some 2000\<rparr>"

definition mem_c :: memory where
  "mem_c = \<lparr>mem_id = ''mem_0000000002'', mem_userId = ''u2'', mem_sessionId = ''s1'',
            mem_content = ''third'', mem_importance = 0.5, mem_timestamp = Some 3000\<rparr>"

definition two_sessions :: store where
  "two_sessions = \<lparr>st_memories = [mem_a, mem_b, mem_c], st_next = 3, st_now = 5000\<rparr>"

definition empty_store :: store where
  "empty_store = \<lparr>st_memories = [], st_next = 0, st_now = 1000\<rparr>"

text \<open>A save request of user \<open>u1\<close> with request id \<open>r1\<close>, and the record the in-memory
  core stores for it under the \<open>n\<close>-th id while the clock stands at 1000 ms.\<close>

definition save_hello :: save_request where
  "save_hello =
     \<lparr>req_id = Some ''r1'',
      req_body = \<lparr>sb_userId = Some ''u1'', sb_sessionId = Some ''s1'', sb_content = Some ''hello'',
                  sb_metadata = None, sb_importance = None, sb_ttlHours = None\<rparr>\<rparr>"

definition hello :: "nat \<Rightarrow> memory" where
  "hello n =
     \<lparr>mem_id = record_id n, mem_userId = ''u1'', mem_sessionId = ''s1'', mem_content = ''hello'',
      mem_importance = 0.5, mem_timestamp = Some 1000\<rparr>"

text \<open>
  A bulk request of four entries: the save above, a \<^verbatim>\<open>null\<close> entry, a save with
  empty content (which the in-memory core refuses), and the save above once more.
\<close>

definition empty_content :: save_body where
  "empty_content =
     \<lparr>sb_userId = Some ''u1'', sb_sessionId = Some ''s1'', sb_content = Some [],
      sb_metadata = None, sb_importance = None, sb_ttlHours = None\<rparr>"

definition batch :: "save_body option list" where
  "batch = [Some (req_body save_hello), None, Some empty_content, Some (req_body save_hello)]"

text \<open>
  The importance scenario of the spec: three saves of user \<open>u1\<close> with importance 0.2,
  0.5 and 0.9 (and a lifetime of one hour), sent one after the other to the empty store;
  \<open>stored\<close> is the record the in-memory core keeps for such a save.
\<close>

definition save_with :: "string \<Rightarrow> real \<Rightarrow> save_request" where
  "save_with content importance =
     \<lparr>req_id = None,
      req_body = \<lparr>sb_userId = Some ''u1'', sb_sessionId = Some ''s1'',
                  sb_content = Some content, sb_metadata = None,
                  sb_importance = Some importance, sb_ttlHours = Some 1\<rparr>\<rparr>"

definition stored :: "string \<Rightarrow> string \<Rightarrow> memory" where
  "stored ident content =
     \<lparr>mem_id = ident, mem_userId = ''u1'', mem_sessionId = ''s1'', mem_content = content,
      mem_importance = 0.5, mem_timestamp = Some 1000\<rparr>"

definition three_saves :: "store option" where
  "three_saves =
     snd (post_memory_save mem_core
            (snd (post_memory_save mem_core
                    (snd (post_memory_save mem_core (Some empty_store) (save_with ''low'' 0.2)))
                    (save_with ''mid'' 0.5)))
            (save_with ''high'' 0.9))"

section \<open>Recall and the importance threshold\<close>

text \<open>
  C1. The claim asks that a recall with \<open>min_importance = m\<close> return exactly the memories
  whose importance is at least \<open>m\<close>. In the code the threshold never reaches the core:
  the bridge drops \<^verbatim>\<open>minImportance\<close>, so for every core, every bridge state and every
  request the answer (and the core state left behind) is the one of the same request with
  any other threshold, or with none.
\<close>

theorem recall_ignores_minImportance:
  "recallMemories core b (flt\<lparr>flt_minImportance := m\<rparr>) = recallMemories core b flt
   \<and> recallMemories_ctl core b (body\<lparr>rb_minImportance := m'\<rparr>) = recallMemories_ctl core b body"
proof
  show "recallMemories core b (flt\<lparr>flt_minImportance := m\<rparr>) = recallMemories core b flt"
    by (cases b) (simp_all add: recallMemories_def)
  have "recallMemories core b (build_filter (body\<lparr>rb_minImportance := m'\<rparr>))
        = recallMemories core b (build_filter body)"
    by (cases b) (simp_all add: recallMemories_def build_filter_def)
  then show "recallMemories_ctl core b (body\<lparr>rb_minImportance := m'\<rparr>)
             = recallMemories_ctl core b body"
    by (simp add: recallMemories_ctl_def build_filter_def Let_def split: prod.split sum.split)
qed

section \<open>What a save hands to the core\<close>

text \<open>
  C2. The claim asks that the stored record carry the caller's importance and an expiry
  computed from the caller's \<open>ttlHours\<close>. The bridge accepts both arguments but hands
  \<^verbatim>\<open>mindcache_save\<close> only the user id, the session id, the content and the metadata:
  for every core, the result of a save and the core state it leaves are the same for all
  values of importance and \<open>ttlHours\<close>, at the bridge and at the controller.
\<close>

theorem save_ignores_importance_and_ttl:
  "saveMemory core b (a\<lparr>sa_importance := i, sa_ttlHours := t\<rparr>) = saveMemory core b a
   \<and> saveMemory_ctl core b (body\<lparr>sb_importance := i', sb_ttlHours := t'\<rparr>)
       = saveMemory_ctl core b body"
proof
  show "saveMemory core b (a\<lparr>sa_importance := i, sa_ttlHours := t\<rparr>) = saveMemory core b a"
    by (cases b) (simp_all add: saveMemory_def)
  have "saveMemory core b (save_args_of (body\<lparr>sb_importance := i', sb_ttlHours := t'\<rparr>))
        = saveMemory core b (save_args_of body)"
    by (cases b) (simp_all add: saveMemory_def save_args_of_def)
  then show "saveMemory_ctl core b (body\<lparr>sb_importance := i', sb_ttlHours := t'\<rparr>)
             = saveMemory_ctl core b body"
    by (simp add: saveMemory_ctl_def split: prod.split sum.split)
qed

text \<open>
  The importance scenario on the in-memory core. The three saves are stored with the
  default importance, and the recall with \<open>minImportance = 0.4\<close> answers with all three
  memories, the one saved with importance 0.2 among them.
\<close>

lemma record_ids:
  "record_id 0 = ''mem_0000000000''" "record_id (Suc 0) = ''mem_0000000001''"
  "record_id (Suc (Suc 0)) = ''mem_0000000002''"
  by code_simp+

lemmas eval_core =
  mem_core_def mem_recall_def mem_save_def mem_summarize_def selected_def ranked_def
  score_def created_at_def two_sessions_def empty_store_def mem_a_def mem_b_def mem_c_def

lemmas eval_save =
  post_memory_save_def validateMemorySave_def memorySave_details_def joi_string_def
  joi_number_def saveMemory_ctl_def saveMemory_def save_args_of_def trim_empty_def is_space_def
  or_default_def num_or_null_def save_hello_def hello_def

lemma three_saves_store:
  "three_saves =
     Some \<lparr>st_memories = [stored ''mem_0000000000'' ''low'', stored ''mem_0000000001'' ''mid'',
                           stored ''mem_0000000002'' ''high''],
           st_next = 3, st_now = 1000\<rparr>"
  by (simp add: three_saves_def save_with_def stored_def eval_save eval_core record_ids)

lemma importance_scenario:
  "fst (recallMemories_ctl mem_core three_saves
         \<lparr>rb_userId = Some ''u1'', rb_query = None, rb_sessionId = None, rb_dateFrom = None,
          rb_dateTo = None, rb_limit = None, rb_minImportance = Some 0.4,
          rb_keywords = None\<rparr>)
   = Inr (200,
       \<lparr>rd_memories = [stored ''mem_0000000000'' ''low'', stored ''mem_0000000001'' ''mid'',
                       stored ''mem_0000000002'' ''high''],
        rd_count = 3, rd_userId = Some ''u1'', rd_query = None, rd_sessionId = None,
        rd_limit = 50\<rparr>)"
  unfolding three_saves_store
  by (simp add: recallMemories_ctl_def recallMemories_def build_filter_def str_or_null_def
      num_or_null_def int_or_def message_or_def stored_def eval_core)

section \<open>Validation of a save request\<close>

lemma joi_string_nil:
  "(joi_string f lo hi v = []) = (\<exists>s. v = Some s \<and> s \<noteq> [] \<and> lo \<le> length s \<and> length s \<le> hi)"
  by (auto simp: joi_string_def split: option.splits)

lemma joi_number_nil:
  "(joi_number f w lo hi v = []) =
     (case v of None \<Rightarrow> True | Some x \<Rightarrow> (w \<longrightarrow> x \<in> \<int>) \<and> lo \<le> x \<and> x \<le> hi)"
  by (auto simp: joi_number_def split: option.splits)

text \<open>
  C5, as amended. A save request passes validation exactly when the user id and the session
  id have 1 to 255 characters, the content has 1 to 100000 characters, the importance (if
  given) lies in [0, 1] and \<open>ttlHours\<close> (if given) is a whole number in [1, 8760];
  otherwise the answer is the list of violated rules. The content is reported as too long
  exactly when it has more than 100000 characters, and an id as empty exactly when it is
  the empty string.
\<close>

theorem memorySave_validation:
  "(\<exists>v. validateMemorySave body = Inr v) =
     ((\<exists>u. sb_userId body = Some u \<and> 1 \<le> length u \<and> length u \<le> 255)
    \<and> (\<exists>s. sb_sessionId body = Some s \<and> 1 \<le> length s \<and> length s \<le> 255)
    \<and> (\<exists>t. sb_content body = Some t \<and> 1 \<le> length t \<and> length t \<le> 100000)
    \<and> (case sb_importance body of None \<Rightarrow> True | Some x \<Rightarrow> 0 \<le> x \<and> x \<le> 1)
    \<and> (case sb_ttlHours body of None \<Rightarrow> True | Some x \<Rightarrow> x \<in> \<int> \<and> 1 \<le> x \<and> x \<le> 8760))
   \<and> (validateMemorySave body = Inr body \<or> validateMemorySave body = Inl (memorySave_details body))
   \<and> ((''content'', ''string.max'') \<in> set (memorySave_details body))
       = (\<exists>t. sb_content body = Some t \<and> 100000 < length t)
   \<and> ((''userId'', ''string.empty'') \<in> set (memorySave_details body)) = (sb_userId body = Some [])
   \<and> ((''sessionId'', ''string.empty'') \<in> set (memorySave_details body))
       = (sb_sessionId body = Some [])"
proof -
  have pass: "(\<exists>v. validateMemorySave body = Inr v) = (memorySave_details body = [])"
    by (auto simp: validateMemorySave_def split: list.splits)
  have p1: "(memorySave_details body = []) =
     ((\<exists>u. sb_userId body = Some u \<and> 1 \<le> length u \<and> length u \<le> 255)
    \<and> (\<exists>s. sb_sessionId body = Some s \<and> 1 \<le> length s \<and> length s \<le> 255)
    \<and> (\<exists>t. sb_content body = Some t \<and> 1 \<le> length t \<and> length t \<le> 100000)
    \<and> (case sb_importance body of None \<Rightarrow> True | Some x \<Rightarrow> 0 \<le> x \<and> x \<le> 1)
    \<and> (case sb_ttlHours body of None \<Rightarrow> True | Some x \<Rightarrow> x \<in> \<int> \<and> 1 \<le> x \<and> x \<le> 8760))"
    unfolding memorySave_details_def append_is_Nil_conv joi_string_nil joi_number_nil
    by (auto split: option.splits)
  have p2: "validateMemorySave body = Inr body \<or> validateMemorySave body = Inl (memorySave_details body)"
    by (auto simp: validateMemorySave_def split: list.splits)
  have p3: "((''content'', ''string.max'') \<in> set (memorySave_details body))
       = (\<exists>t. sb_content body = Some t \<and> 100000 < length t)"
    by (auto simp: memorySave_details_def joi_string_def joi_number_def split: option.splits if_splits)
  have p4: "((''userId'', ''string.empty'') \<in> set (memorySave_details body)) = (sb_userId body = Some [])"
    by (auto simp: memorySave_details_def joi_string_def joi_number_def split: option.splits if_splits)
  have p5: "((''sessionId'', ''string.empty'') \<in> set (memorySave_details body)) = (sb_sessionId body = Some [])"
    by (auto simp: memorySave_details_def joi_string_def joi_number_def split: option.splits if_splits)
  show ?thesis using pass p1 p2 p3 p4 p5 by simp
qed

text \<open>
  C5 as stated fails: a content of 100001 characters is below 100 KiB (102400 bytes) and
  is rejected.
\<close>

theorem content_limit_counterexample:
  "length (replicate 100001 CHR ''a'') \<le> 100 * 1024
   \<and> validateMemorySave
        \<lparr>sb_userId = Some ''u1'', sb_sessionId = Some ''s1'',
         sb_content = Some (replicate 100001 CHR ''a''), sb_metadata = None,
         sb_importance = None, sb_ttlHours = None\<rparr>
      = Inl [(''content'', ''string.max'')]"
  by (simp add: validateMemorySave_def memorySave_details_def joi_string_def joi_number_def)


section \<open>Retries in the SDK\<close>

lemma request_from_skip:
  assumes "\<forall>j. a \<le> j \<and> j < k \<longrightarrow> fetch j = Fails (f j) \<and> \<not> client_error (thrown s (f j))"
    and "a \<le> k" and "k \<le> sdk_retries s"
  shows "request_from s fetch a le ds n =
           request_from s fetch k (if a < k then Some (thrown s (f (k - 1))) else le)
             (ds @ map backoff [a..k - 1]) (n + nat (k - a))"
  using assms
proof (induction s fetch a le ds n rule: request_from.induct)
  case (1 s fetch attempt lastError delays made)
  show ?case
  proof (cases "attempt < k")
    case False
    with "1.prems"(2) have "attempt = k" by simp
    then show ?thesis by simp
  next
    case True
    from "1.prems"(1) True have here: "fetch attempt = Fails (f attempt)"
      and retry: "\<not> client_error (thrown s (f attempt))" by auto
    from True "1.prems"(3) have lt: "attempt < sdk_retries s" and le: "attempt \<le> sdk_retries s" by auto
    have last: "(if attempt + 1 < k then Some (thrown s (f (k - 1))) else Some (thrown s (f attempt)))
        = Some (thrown s (f (k - 1)))"
    proof (cases "attempt + 1 < k")
      case True
      then show ?thesis by simp
    next
      case False
      with \<open>attempt < k\<close> have "attempt = k - 1" by simp
      with False show ?thesis by simp
    qed
    have upto: "[attempt..k - 1] = attempt # [attempt + 1..k - 1]"
      using True by (simp add: upto_rec1)
    have count: "Suc made + nat (k - (attempt + 1)) = made + nat (k - attempt)"
      using True by simp
    have "request_from s fetch attempt lastError delays made
          = request_from s fetch (attempt + 1) (Some (thrown s (f attempt)))
              (delays @ [backoff attempt]) (Suc made)"
      using here retry lt le by (subst request_from.simps) simp
    also have "\<dots> = request_from s fetch k
              (if attempt + 1 < k then Some (thrown s (f (k - 1))) else Some (thrown s (f attempt)))
              ((delays @ [backoff attempt]) @ map backoff [attempt + 1..k - 1])
              (Suc made + nat (k - (attempt + 1)))"
      using "1.IH"(1)[OF le here retry lt] "1.prems" True by auto
    also have "\<dots> = request_from s fetch k (Some (thrown s (f (k - 1))))
              (delays @ map backoff [attempt..k - 1]) (made + nat (k - attempt))"
      unfolding last upto count by simp
    finally show ?thesis using True by simp
  qed
qed

lemma client_error_thrown:
  "client_error (thrown s g) = (\<exists>st msg. g = HttpError st msg \<and> 400 \<le> st \<and> st < 500)"
  by (cases g) (auto simp: thrown_def client_error_def)

text \<open>
  C9, as amended. The attempts of \<^verbatim>\<open>request\<close> are made in order, at most \<open>retries\<close> of
  them (3 by default). Let attempt \<open>k\<close> be reached, that is, let every attempt before it
  have failed otherwise than with a 4xx status (a status outside 4xx, a rejected fetch,
  an unreadable body, or the client's own timeout, whose status is 0). Then the SDK has
  waited \<open>min (1000 * 2 ^ (attempt - 1)) 10000\<close> ms after each of those attempts, and
  \<^item> if attempt \<open>k\<close> succeeds, its data is returned;
  \<^item> if attempt \<open>k\<close> is answered with a 4xx status, that error is thrown at once, as
    received, with no further attempt and no further delay;
  \<^item> if attempt \<open>k\<close> is the last one allowed and fails otherwise, its error is thrown
    with no further delay.

  In each case exactly \<open>k\<close> attempts were made. With \<open>retries\<close> below 1 no attempt is
  made at all.
\<close>

theorem request_retry_policy:
  "(1 \<le> k \<and> k \<le> sdk_retries s
      \<and> (\<forall>j. 1 \<le> j \<and> j < k \<longrightarrow>
             fetch j = Fails (f j) \<and> (\<forall>st' msg'. f j = HttpError st' msg' \<longrightarrow> st' < 400 \<or> 500 \<le> st'))
    \<longrightarrow> (fetch k = Ok r
           \<longrightarrow> request s fetch =
                 (Inr r, map (\<lambda>attempt. min (1000 * 2 ^ nat (attempt - 1)) 10000) [1..k - 1], nat k))
        \<and> (fetch k = Fails (HttpError st msg) \<and> 400 \<le> st \<and> st < 500
           \<longrightarrow> request s fetch =
                 (Inl (Some \<lparr>se_message = msg, se_status = Some st\<rparr>),
                  map (\<lambda>attempt. min (1000 * 2 ^ nat (attempt - 1)) 10000) [1..k - 1], nat k))
        \<and> (k = sdk_retries s \<and> fetch k = Fails (f k)
             \<and> (\<forall>st' msg'. f k = HttpError st' msg' \<longrightarrow> st' < 400 \<or> 500 \<le> st')
           \<longrightarrow> request s fetch =
                 (Inl (Some (thrown s (f k))),
                  map (\<lambda>attempt. min (1000 * 2 ^ nat (attempt - 1)) 10000) [1..k - 1], nat k)))
   \<and> (sdk_retries s < 1 \<longrightarrow> request s fetch = (Inl None, [], 0))
   \<and> sdk_retries (MindCacheSDK \<lparr>opt_timeout = t, opt_retries = None\<rparr>) = 3"
proof (intro conjI impI)
  assume a: "1 \<le> k \<and> k \<le> sdk_retries s
      \<and> (\<forall>j. 1 \<le> j \<and> j < k \<longrightarrow>
             fetch j = Fails (f j) \<and> (\<forall>st' msg'. f j = HttpError st' msg' \<longrightarrow> st' < 400 \<or> 500 \<le> st'))"
  have "\<forall>j. 1 \<le> j \<and> j < k \<longrightarrow> fetch j = Fails (f j) \<and> \<not> client_error (thrown s (f j))"
    using a unfolding client_error_thrown by force
  from request_from_skip[OF this, of None "[]" 0] a
  have skip: "request s fetch =
           request_from s fetch k (if 1 < k then Some (thrown s (f (k - 1))) else None)
             (map backoff [1..k - 1]) (nat (k - 1))"
    unfolding request_def by simp
  from a have k1: "1 \<le> k" and kr: "k \<le> sdk_retries s" by simp_all
  have n: "Suc (nat (k - 1)) = nat k" using k1 by simp
  have b: "map backoff = map (\<lambda>attempt. min (1000 * 2 ^ nat (attempt - 1)) 10000)"
    by (simp add: backoff_def[abs_def])
  {
    assume "fetch k = Ok r"
    then show "request s fetch =
                 (Inr r, map (\<lambda>attempt. min (1000 * 2 ^ nat (attempt - 1)) 10000) [1..k - 1], nat k)"
      unfolding skip using k1 kr n by (subst request_from.simps) (simp add: b)
  }
  {
    assume "fetch k = Fails (HttpError st msg) \<and> 400 \<le> st \<and> st < 500"
    then show "request s fetch =
                 (Inl (Some \<lparr>se_message = msg, se_status = Some st\<rparr>),
                  map (\<lambda>attempt. min (1000 * 2 ^ nat (attempt - 1)) 10000) [1..k - 1], nat k)"
      unfolding skip using k1 kr n
      by (subst request_from.simps) (simp add: b thrown_def client_error_def)
  }
  {
    assume c: "k = sdk_retries s \<and> fetch k = Fails (f k)
             \<and> (\<forall>st' msg'. f k = HttpError st' msg' \<longrightarrow> st' < 400 \<or> 500 \<le> st')"
    then have nc: "\<not> client_error (thrown s (f k))"
      unfolding client_error_thrown by force
    from c have kR: "k = sdk_retries s" and fk: "fetch k = Fails (f k)" by blast+
    have step: "request_from s fetch k le ds m
          = request_from s fetch (k + 1) (Some (thrown s (f k))) ds (Suc m)" for le ds m
      using fk nc kR by (subst request_from.simps) simp
    have fin: "request_from s fetch (k + 1) le ds m = (Inl le, ds, m)" for le ds m
      using kR by (subst request_from.simps) simp
    show "request s fetch =
                 (Inl (Some (thrown s (f k))),
                  map (\<lambda>attempt. min (1000 * 2 ^ nat (attempt - 1)) 10000) [1..k - 1], nat k)"
      unfolding skip step fin n b by simp
  }
next
  assume "sdk_retries s < 1"
  then show "request s fetch = (Inl None, [], 0)"
    unfolding request_def by (subst request_from.simps) simp
next
  show "sdk_retries (MindCacheSDK \<lparr>opt_timeout = t, opt_retries = None\<rparr>) = 3"
    by (simp add: MindCacheSDK_def int_or_def)
qed


text \<open>
  The policy on four runs: status 500 then 404 (two attempts, one delay of 1000 ms);
  a timeout then a success; status 503 four times with \<open>retries = 4\<close>; and a negative
  \<open>retries\<close>.
\<close>

theorem request_retry_policy_witness:
  "request (MindCacheSDK \<lparr>opt_timeout = None, opt_retries = None\<rparr>)
       (\<lambda>j. if j = 1 then Fails (HttpError 500 ''io'')
            else Fails (HttpError 404 ''Session not found'') :: unit outcome)
     = (Inl (Some \<lparr>se_message = ''Session not found'', se_status = Some 404\<rparr>), [1000], 2)
   \<and> request (MindCacheSDK \<lparr>opt_timeout = None, opt_retries = None\<rparr>)
       (\<lambda>j. if j = 1 then Fails Aborted else Ok ''data'')
     = (Inr ''data'', [1000], 2)
   \<and> request (MindCacheSDK \<lparr>opt_timeout = None, opt_retries = Some 4\<rparr>)
       (\<lambda>j. Fails (HttpError 503 ''unavailable'') :: unit outcome)
     = (Inl (Some \<lparr>se_message = ''unavailable'', se_status = Some 503\<rparr>), [1000, 2000, 4000], 4)
   \<and> request (MindCacheSDK \<lparr>opt_timeout = None, opt_retries = Some (- 1)\<rparr>)
       (\<lambda>j. Ok ''data'')
     = (Inl None, [], 0)"
proof -
  let ?s = "MindCacheSDK \<lparr>opt_timeout = None, opt_retries = None\<rparr>"
  let ?s4 = "MindCacheSDK \<lparr>opt_timeout = None, opt_retries = Some 4\<rparr>"
  let ?sneg = "MindCacheSDK \<lparr>opt_timeout = None, opt_retries = Some (- 1)\<rparr>"
  have r: "sdk_retries ?s = 3" "sdk_retries ?s4 = 4"
    by (simp_all add: MindCacheSDK_def int_or_def)
  have r0: "sdk_retries ?sneg = - 1"
    by (simp add: MindCacheSDK_def int_or_def)
  have u: "[1..(3::int)] = [1, 2, 3]"  by (simp add: upto.simps)
  have u1: "[1..(1::int)] = [1]" by (simp add: upto.simps)
  have one: "\<And>j::int. 1 \<le> j \<and> j < 2 \<Longrightarrow> j = 1" by auto
  have h1: "\<forall>j::int. 1 \<le> j \<and> j < 2 \<longrightarrow>
             (if j = 1 then Fails (HttpError 500 ''io'')
              else Fails (HttpError 404 ''Session not found'') :: unit outcome) = Fails (HttpError 500 ''io'')
             \<and> (\<forall>st' msg'. HttpError 500 ''io'' = HttpError st' msg' \<longrightarrow> st' < 400 \<or> 500 \<le> st')"
    by (auto dest: one)
  have h2: "\<forall>j::int. 1 \<le> j \<and> j < 2 \<longrightarrow>
             (if j = 1 then Fails Aborted else Ok ''data'') = Fails Aborted
             \<and> (\<forall>st' msg'. Aborted = HttpError st' msg' \<longrightarrow> st' < 400 \<or> 500 \<le> st')"
    by (auto dest: one)
  have "request ?s
       (\<lambda>j. if j = 1 then Fails (HttpError 500 ''io'')
            else Fails (HttpError 404 ''Session not found'') :: unit outcome)
     = (Inl (Some \<lparr>se_message = ''Session not found'', se_status = Some 404\<rparr>), [1000], 2)"
    using request_retry_policy[where s = ?s and k = 2 and st = 404 and msg = "''Session not found''"
        and f = "\<lambda>j. HttpError 500 ''io''"
        and fetch = "\<lambda>j. if j = 1 then Fails (HttpError 500 ''io'')
            else Fails (HttpError 404 ''Session not found'') :: unit outcome"] r u1 h1
    by simp
  moreover have "request ?s (\<lambda>j. if j = 1 then Fails Aborted else Ok ''data'')
     = (Inr ''data'', [1000], 2)"
    using request_retry_policy[where s = ?s and k = 2 and r = "''data''"
        and f = "\<lambda>j. Aborted"
        and fetch = "\<lambda>j. if j = 1 then Fails Aborted else Ok ''data''"] r u1 h2
    by simp
  moreover have "request ?s4 (\<lambda>j. Fails (HttpError 503 ''unavailable'') :: unit outcome)
        = (Inl (Some \<lparr>se_message = ''unavailable'', se_status = Some 503\<rparr>), [1000, 2000, 4000], 4)"
    using request_retry_policy[where s = ?s4 and k = 4
        and f = "\<lambda>j. HttpError 503 ''unavailable''"
        and fetch = "\<lambda>j. Fails (HttpError 503 ''unavailable'') :: unit outcome"] r u
    by (simp add: thrown_def)
  moreover have "request ?sneg (\<lambda>j. Ok ''data'') = (Inl None, [], 0)"
    using request_retry_policy[where s = ?sneg and fetch = "\<lambda>j. Ok ''data''"] r0
    by simp
  ultimately show ?thesis by simp
qed

text \<open>
  C9 as stated fails: with the default options a request that keeps failing with status
  500 is attempted three times with delays of 1000 ms and 2000 ms (not retried once after
  50 ms and 200 ms), and a request that keeps timing out is retried in the same way
  instead of being surfaced at once.
\<close>

theorem request_retry_counterexample:
  "snd (request (MindCacheSDK \<lparr>opt_timeout = None, opt_retries = None\<rparr>)
          (\<lambda>k. Fails (HttpError 500 ''io'') :: unit outcome)) = ([1000, 2000], 3)
   \<and> snd (request (MindCacheSDK \<lparr>opt_timeout = None, opt_retries = None\<rparr>)
          (\<lambda>k. Fails Aborted :: unit outcome)) = ([1000, 2000], 3)"
  by (simp add: request_def request_from.simps MindCacheSDK_def int_or_def thrown_def
      client_error_def backoff_def)


section \<open>Bulk save accounts for every entry\<close>

lemma bulk_loop_indices:
  "bulk_loop core b i ms results errors = (rs, es, b') \<Longrightarrow>
     mset (map br_index rs) + mset (map be_index es)
       = mset (map br_index results) + mset (map be_index errors) + mset [i..<i + length ms]
     \<and> length rs + length es = length results + length errors + length ms"
proof (induction ms arbitrary: b i results errors)
  case Nil
  then show ?case by simp
next
  case (Cons m ms)
  have "[i..<i + length (m # ms)] = i # [Suc i..<Suc i + length ms]"
    using upt_conv_Cons[of i "i + length (m # ms)"] by simp
  then have up: "mset [i..<i + length (m # ms)] = {#i#} + mset [Suc i..<Suc i + length ms]"
    by (simp del: mset_upt)
  show ?case
  proof (cases m)
    case None
    with Cons.prems Cons.IH[of b "Suc i" results
        "errors @ [\<lparr>be_index = i, be_error = null_entry, be_memory = None\<rparr>]"]
    show ?thesis unfolding up by (simp del: mset_upt)
  next
    case (Some memory)
    obtain r b1 where sv: "saveMemory core b (save_args_of memory) = (r, b1)"
      by (cases "saveMemory core b (save_args_of memory)")
    show ?thesis
    proof (cases r)
      case (Inl e)
      with Cons.prems Some sv Cons.IH[of b1 "Suc i" results
          "errors @ [\<lparr>be_index = i, be_error = err_message e, be_memory = Some memory\<rparr>]"]
      show ?thesis unfolding up by (simp del: mset_upt)
    next
      case (Inr memoryId)
      with Cons.prems Some sv Cons.IH[of b1 "Suc i"
          "results @ [\<lparr>br_index = i, br_memoryId = memoryId, br_userId = sb_userId memory,
                       br_sessionId = sb_sessionId memory\<rparr>]" errors]
      show ?thesis unfolding up by (simp del: mset_upt)
    qed
  qed
qed

lemma bulk_loop_sorted:
  "bulk_loop core b i ms results errors = (rs, es, b') \<Longrightarrow>
   sorted (map br_index results) \<Longrightarrow> sorted (map be_index errors) \<Longrightarrow>
   (\<forall>r \<in> set results. br_index r < i) \<Longrightarrow> (\<forall>e \<in> set errors. be_index e < i) \<Longrightarrow>
   sorted (map br_index rs) \<and> sorted (map be_index es)"
proof (induction ms arbitrary: b i results errors)
  case Nil
  then show ?case by simp
next
  case (Cons m ms)
  show ?case
  proof (cases m)
    case None
    with Cons.prems show ?thesis
      by (intro Cons.IH[of b "Suc i" results
            "errors @ [\<lparr>be_index = i, be_error = null_entry, be_memory = None\<rparr>]"])
         (auto simp: sorted_append less_Suc_eq less_imp_le)
  next
    case (Some memory)
    obtain r b1 where sv: "saveMemory core b (save_args_of memory) = (r, b1)"
      by (cases "saveMemory core b (save_args_of memory)")
    show ?thesis
    proof (cases r)
      case (Inl e)
      with Cons.prems Some sv show ?thesis
        by (intro Cons.IH[of b1 "Suc i" results
              "errors @ [\<lparr>be_index = i, be_error = err_message e, be_memory = Some memory\<rparr>]"])
           (auto simp: sorted_append less_Suc_eq less_imp_le)
    next
      case (Inr memoryId)
      with Cons.prems Some sv show ?thesis
        by (intro Cons.IH[of b1 "Suc i"
          "results @ [\<lparr>br_index = i, br_memoryId = memoryId, br_userId = sb_userId memory,
                       br_sessionId = sb_sessionId memory\<rparr>]" errors])
           (auto simp: sorted_append less_Suc_eq less_imp_le)
    qed
  qed
qed

lemma bulk_loop_append:
  "bulk_loop core b i (xs @ ys) results errors =
     (case bulk_loop core b i xs results errors of
        (results', errors', b') \<Rightarrow> bulk_loop core b' (i + length xs) ys results' errors')"
proof (induction xs arbitrary: b i results errors)
  case Nil
  then show ?case by simp
next
  case (Cons m xs)
  show ?case
  proof (cases m)
    case None
    then show ?thesis by (simp add: Cons.IH)
  next
    case (Some memory)
    obtain r b1 where sv: "saveMemory core b (save_args_of memory) = (r, b1)"
      by (cases "saveMemory core b (save_args_of memory)")
    with Some show ?thesis by (cases r) (simp_all add: Cons.IH)
  qed
qed

lemma attempted_Nil [simp]: "attempted core b [] = b"
  by (simp add: attempted_def)

lemma attempted_Cons_None [simp]: "attempted core b (None # ms) = attempted core b ms"
  by (simp add: attempted_def)

lemma attempted_Cons_Some [simp]:
  "attempted core b (Some memory # ms)
     = attempted core (snd (saveMemory core b (save_args_of memory))) ms"
  by (simp add: attempted_def)

lemma bulk_loop_state:
  "snd (snd (bulk_loop core b i ms results errors)) = attempted core b ms"
proof (induction ms arbitrary: b i results errors)
  case Nil
  then show ?case by simp
next
  case (Cons m ms)
  show ?case
  proof (cases m)
    case None
    then show ?thesis by (simp add: Cons.IH)
  next
    case (Some memory)
    obtain r b1 where sv: "saveMemory core b (save_args_of memory) = (r, b1)"
      by (cases "saveMemory core b (save_args_of memory)")
    with Some show ?thesis by (cases r) (simp_all add: Cons.IH)
  qed
qed

lemma bulk_loop_keeps:
  "bulk_loop core b i ms results errors = (rs, es, b') \<Longrightarrow>
     set results \<subseteq> set rs \<and> set errors \<subseteq> set es"
proof (induction ms arbitrary: b i results errors)
  case Nil
  then show ?case by simp
next
  case (Cons m ms)
  show ?case
  proof (cases m)
    case None
    with Cons.prems Cons.IH[of b "Suc i" results
        "errors @ [\<lparr>be_index = i, be_error = null_entry, be_memory = None\<rparr>]"]
    show ?thesis by simp
  next
    case (Some memory)
    obtain r b1 where sv: "saveMemory core b (save_args_of memory) = (r, b1)"
      by (cases "saveMemory core b (save_args_of memory)")
    show ?thesis
    proof (cases r)
      case (Inl e)
      with Cons.prems Some sv Cons.IH[of b1 "Suc i" results
          "errors @ [\<lparr>be_index = i, be_error = err_message e, be_memory = Some memory\<rparr>]"]
      show ?thesis by simp
    next
      case (Inr memoryId)
      with Cons.prems Some sv Cons.IH[of b1 "Suc i"
          "results @ [\<lparr>br_index = i, br_memoryId = memoryId, br_userId = sb_userId memory,
                       br_sessionId = sb_sessionId memory\<rparr>]" errors]
      show ?thesis by simp
    qed
  qed
qed

lemma bulk_loop_outcome:
  "bulk_loop core b i ms results errors = (rs, es, b') \<Longrightarrow> j < length ms \<Longrightarrow>
     (case ms ! j of
        None \<Rightarrow> \<lparr>be_index = i + j, be_error = null_entry, be_memory = None\<rparr> \<in> set es
      | Some memory \<Rightarrow>
          (case fst (saveMemory core (attempted core b (take j ms)) (save_args_of memory)) of
             Inr memoryId \<Rightarrow>
               \<lparr>br_index = i + j, br_memoryId = memoryId, br_userId = sb_userId memory,
                br_sessionId = sb_sessionId memory\<rparr> \<in> set rs
           | Inl e \<Rightarrow>
               \<lparr>be_index = i + j, be_error = err_message e, be_memory = Some memory\<rparr> \<in> set es))"
proof (induction ms arbitrary: b i results errors j)
  case Nil
  then show ?case by simp
next
  case (Cons m ms)
  show ?case
  proof (cases m)
    case None
    let ?errors = "errors @ [\<lparr>be_index = i, be_error = null_entry, be_memory = None\<rparr>]"
    from Cons.prems(1) None have l: "bulk_loop core b (Suc i) ms results ?errors = (rs, es, b')"
      by simp
    show ?thesis
    proof (cases j)
      case 0
      with bulk_loop_keeps[OF l] None show ?thesis by auto
    next
      case (Suc j')
      with Cons.prems(2) have "j' < length ms" by simp
      from Cons.IH[OF l this] Suc None show ?thesis
        by (simp cong: option.case_cong sum.case_cong)
    qed
  next
    case (Some memory)
    obtain r b1 where sv: "saveMemory core b (save_args_of memory) = (r, b1)"
      by (cases "saveMemory core b (save_args_of memory)")
    show ?thesis
    proof (cases r)
      case (Inl e)
      let ?errors = "errors @ [\<lparr>be_index = i, be_error = err_message e, be_memory = Some memory\<rparr>]"
      from Cons.prems(1) Some sv Inl
      have l: "bulk_loop core b1 (Suc i) ms results ?errors = (rs, es, b')" by simp
      show ?thesis
      proof (cases j)
        case 0
        with bulk_loop_keeps[OF l] Some sv Inl show ?thesis by auto
      next
        case (Suc j')
        with Cons.prems(2) have "j' < length ms" by simp
        from Cons.IH[OF l this] Suc Some sv show ?thesis
          by (simp cong: option.case_cong sum.case_cong)
      qed
    next
      case (Inr memoryId)
      let ?results = "results @ [\<lparr>br_index = i, br_memoryId = memoryId, br_userId = sb_userId memory,
                       br_sessionId = sb_sessionId memory\<rparr>]"
      from Cons.prems(1) Some sv Inr
      have l: "bulk_loop core b1 (Suc i) ms ?results errors = (rs, es, b')" by simp
      show ?thesis
      proof (cases j)
        case 0
        with bulk_loop_keeps[OF l] Some sv Inr show ?thesis by auto
      next
        case (Suc j')
        with Cons.prems(2) have "j' < length ms" by simp
        from Cons.IH[OF l this] Suc Some sv show ?thesis
          by (simp cong: option.case_cong sum.case_cong)
      qed
    qed
  qed
qed


text \<open>
  C10. For every core, bridge state and array of \<open>n\<close> entries:
  \<^item> the indices listed in \<^verbatim>\<open>results\<close> and in \<^verbatim>\<open>errors\<close> together are exactly
    \<open>0, ..., n - 1\<close>, each once, and both lists are in input order;
  \<^item> the summary reports \<open>total = n\<close>, the lengths of the two lists, and
    \<open>total = successful + failed\<close>;
  \<^item> the entries are attempted one at a time in input order, and a failure never prevents
    the attempt of a later entry: the entry at index \<open>i\<close> is saved through the bridge in
    the state that the attempts of the entries \<open>0, ..., i - 1\<close> have left, whatever their
    outcomes; when that save returns an id, \<^verbatim>\<open>results\<close> lists the index with that id and
    the entry's user and session; when it throws, \<^verbatim>\<open>errors\<close> lists the index with the
    message thrown and the entry; a \<^verbatim>\<open>null\<close> entry is listed in \<^verbatim>\<open>errors\<close>;
  \<^item> the bridge is left in the state after the attempts of all \<open>n\<close> entries;
  \<^item> the loop over some entries followed by others is the loop over the first, continued
    over the others from the state and the index it has reached.
\<close>

theorem bulkSaveMemories_accounts_for_every_entry:
  "(case bulkSaveMemories core b memories of
      ((st, d), b') \<Rightarrow>
        mset (map br_index (bd_results d)) + mset (map be_index (errors_of d))
          = mset [0..<length memories]
      \<and> sorted (map br_index (bd_results d)) \<and> sorted (map be_index (errors_of d))
      \<and> bs_total (bd_summary d) = length memories
      \<and> bs_successful (bd_summary d) = length (bd_results d)
      \<and> bs_failed (bd_summary d) = length (errors_of d)
      \<and> bs_total (bd_summary d) = bs_successful (bd_summary d) + bs_failed (bd_summary d)
      \<and> b' = attempted core b memories
      \<and> (\<forall>i < length memories.
            case memories ! i of
              None \<Rightarrow> \<lparr>be_index = i, be_error = null_entry, be_memory = None\<rparr> \<in> set (errors_of d)
            | Some memory \<Rightarrow>
                (case fst (saveMemory core (attempted core b (take i memories)) (save_args_of memory)) of
                   Inr memoryId \<Rightarrow>
                     \<lparr>br_index = i, br_memoryId = memoryId, br_userId = sb_userId memory,
                      br_sessionId = sb_sessionId memory\<rparr> \<in> set (bd_results d)
                 | Inl e \<Rightarrow>
                     \<lparr>be_index = i, be_error = err_message e, be_memory = Some memory\<rparr>
                       \<in> set (errors_of d))))
   \<and> bulk_loop core b i (xs @ ys) results errors =
       (case bulk_loop core b i xs results errors of
          (results', errors', b') \<Rightarrow> bulk_loop core b' (i + length xs) ys results' errors')"
proof
  obtain rs es b' where l: "bulk_loop core b 0 memories [] [] = (rs, es, b')"
    by (cases "bulk_loop core b 0 memories [] []")
  have e: "errors_of \<lparr>bd_success = es = [], bd_results = rs,
             bd_summary = \<lparr>bs_total = length memories, bs_successful = length rs,
                            bs_failed = length es\<rparr>,
             bd_errors = if es \<noteq> [] then Some es else None\<rparr> = es"
    by (simp add: errors_of_def)
  have st: "b' = attempted core b memories"
    using bulk_loop_state[of core b 0 memories "[]" "[]"] l by simp
  have out: "\<forall>i < length memories.
            case memories ! i of
              None \<Rightarrow> \<lparr>be_index = i, be_error = null_entry, be_memory = None\<rparr> \<in> set es
            | Some memory \<Rightarrow>
                (case fst (saveMemory core (attempted core b (take i memories)) (save_args_of memory)) of
                   Inr memoryId \<Rightarrow>
                     \<lparr>br_index = i, br_memoryId = memoryId, br_userId = sb_userId memory,
                      br_sessionId = sb_sessionId memory\<rparr> \<in> set rs
                 | Inl e \<Rightarrow>
                     \<lparr>be_index = i, be_error = err_message e, be_memory = Some memory\<rparr> \<in> set es)"
    using bulk_loop_outcome[OF l] by (simp cong: option.case_cong sum.case_cong)
  have idx: "mset (map br_index rs) + mset (map be_index es) = mset [0..<length memories]"
    and len: "length rs + length es = length memories"
    using bulk_loop_indices[OF l] by (simp_all del: mset_upt)
  have srt: "sorted (map br_index rs)" "sorted (map be_index es)"
    using bulk_loop_sorted[OF l] by simp_all
  show "(case bulkSaveMemories core b memories of
      ((st, d), b') \<Rightarrow>
        mset (map br_index (bd_results d)) + mset (map be_index (errors_of d))
          = mset [0..<length memories]
      \<and> sorted (map br_index (bd_results d)) \<and> sorted (map be_index (errors_of d))
      \<and> bs_total (bd_summary d) = length memories
      \<and> bs_successful (bd_summary d) = length (bd_results d)
      \<and> bs_failed (bd_summary d) = length (errors_of d)
      \<and> bs_total (bd_summary d) = bs_successful (bd_summary d) + bs_failed (bd_summary d)
      \<and> b' = attempted core b memories
      \<and> (\<forall>i < length memories.
            case memories ! i of
              None \<Rightarrow> \<lparr>be_index = i, be_error = null_entry, be_memory = None\<rparr> \<in> set (errors_of d)
            | Some memory \<Rightarrow>
                (case fst (saveMemory core (attempted core b (take i memories)) (save_args_of memory)) of
                   Inr memoryId \<Rightarrow>
                     \<lparr>br_index = i, br_memoryId = memoryId, br_userId = sb_userId memory,
                      br_sessionId = sb_sessionId memory\<rparr> \<in> set (bd_results d)
                 | Inl e \<Rightarrow>
                     \<lparr>be_index = i, be_error = err_message e, be_memory = Some memory\<rparr>
                       \<in> set (errors_of d))))"
    unfolding bulkSaveMemories_def l prod.case e bulk_data.simps bulk_summary.simps
    using idx len srt st out by simp
  show "bulk_loop core b i (xs @ ys) results errors =
       (case bulk_loop core b i xs results errors of
          (results', errors', b') \<Rightarrow> bulk_loop core b' (i + length xs) ys results' errors')"
    by (rule bulk_loop_append)
qed


lemma batch_states:
  "attempted mem_core (Some empty_store) (take 2 batch)
     = Some \<lparr>st_memories = [hello 0], st_next = 1, st_now = 1000\<rparr>"
  "attempted mem_core (Some empty_store) (take 3 batch)
     = Some \<lparr>st_memories = [hello 0], st_next = 1, st_now = 1000\<rparr>"
  "attempted mem_core (Some empty_store) batch
     = Some \<lparr>st_memories = [hello 0, hello 1], st_next = 2, st_now = 1000\<rparr>"
  by (simp_all add: batch_def empty_content_def eval_core eval_save record_ids)

text \<open>
  On the in-memory core and the bulk request \<open>batch\<close>: the entry at index 2 fails and is
  listed in \<^verbatim>\<open>errors\<close>, the entry at index 3 is saved all the same, under the second
  id, and the store ends with the two records saved.
\<close>

theorem bulkSaveMemories_accounts_for_every_entry_witness:
  "\<lparr>be_index = 2,
     be_error = ''Failed to save memory: Failed to save memory - no result returned'',
     be_memory = Some empty_content\<rparr>
     \<in> set (errors_of (snd (fst (bulkSaveMemories mem_core (Some empty_store) batch))))
   \<and> \<lparr>br_index = 3, br_memoryId = ''mem_0000000001'', br_userId = Some ''u1'',
       br_sessionId = Some ''s1''\<rparr>
     \<in> set (bd_results (snd (fst (bulkSaveMemories mem_core (Some empty_store) batch))))
   \<and> snd (bulkSaveMemories mem_core (Some empty_store) batch)
       = Some \<lparr>st_memories = [hello 0, hello 1], st_next = 2, st_now = 1000\<rparr>"
proof -
  obtain st d b' where r: "bulkSaveMemories mem_core (Some empty_store) batch = ((st, d), b')"
    by (cases "bulkSaveMemories mem_core (Some empty_store) batch") auto
  have n: "length batch = 4" "batch ! 2 = Some empty_content" "batch ! 3 = Some (req_body save_hello)"
    by (simp_all add: batch_def)
  have s2: "fst (saveMemory mem_core (Some \<lparr>st_memories = [hello 0], st_next = 1, st_now = 1000\<rparr>)
                  (save_args_of empty_content)) = Inl save_failed"
    by (simp add: empty_content_def eval_core eval_save)
  have s3: "fst (saveMemory mem_core (Some \<lparr>st_memories = [hello 0], st_next = 1, st_now = 1000\<rparr>)
                  (save_args_of (req_body save_hello))) = Inr ''mem_0000000001''"
    by (simp add: eval_core eval_save record_ids)
  from bulkSaveMemories_accounts_for_every_entry[where core = mem_core and b = "Some empty_store"
      and memories = batch]
  have st': "b' = attempted mem_core (Some empty_store) batch"
    and out: "\<And>i. i < 4 \<Longrightarrow>
            (case batch ! i of
              None \<Rightarrow> \<lparr>be_index = i, be_error = null_entry, be_memory = None\<rparr> \<in> set (errors_of d)
            | Some memory \<Rightarrow>
                (case fst (saveMemory mem_core (attempted mem_core (Some empty_store) (take i batch))
                            (save_args_of memory)) of
                   Inr memoryId \<Rightarrow>
                     \<lparr>br_index = i, br_memoryId = memoryId, br_userId = sb_userId memory,
                      br_sessionId = sb_sessionId memory\<rparr> \<in> set (bd_results d)
                 | Inl e \<Rightarrow>
                     \<lparr>be_index = i, be_error = err_message e, be_memory = Some memory\<rparr>
                       \<in> set (errors_of d)))"
    unfolding r n by simp_all
  from out[of 2] have "\<lparr>be_index = 2,
     be_error = ''Failed to save memory: Failed to save memory - no result returned'',
     be_memory = Some empty_content\<rparr> \<in> set (errors_of d)"
    unfolding n option.case batch_states s2 by (simp add: save_failed_def Error_def)
  moreover from out[of 3] have "\<lparr>br_index = 3, br_memoryId = ''mem_0000000001'', br_userId = Some ''u1'',
       br_sessionId = Some ''s1''\<rparr> \<in> set (bd_results d)"
    unfolding n option.case batch_states s3 by (simp add: save_hello_def)
  ultimately show ?thesis
    using st' unfolding r batch_states by simp
qed


section \<open>Listing a user's sessions\<close>

lemma instants_finite [simp]:
  "finite {t. \<exists>m \<in> set ms. mem_sessionId m = k \<and> mem_timestamp m = Some t}"
proof -
  have "{t. \<exists>m \<in> set ms. mem_sessionId m = k \<and> mem_timestamp m = Some t}
        \<subseteq> the ` mem_timestamp ` set ms" by force
  then show ?thesis by (rule finite_subset) simp
qed

lemma grouped_new:
  assumes "mem_timestamp m = Some t" "mem_sessionId m \<notin> mem_sessionId ` set ms"
  shows "grouped (ms @ [m]) (mem_sessionId m) (count_memory m (new_session m))"
proof -
  have "filter (\<lambda>x. mem_sessionId x = mem_sessionId m) ms = []"
proof -
    have "\<forall>x \<in> set ms. mem_sessionId x \<noteq> mem_sessionId m" using assms(2) by (metis image_eqI)
    then show ?thesis by (simp add: filter_empty_conv)
  qed
  moreover have "\<forall>x \<in> set ms. mem_sessionId x \<noteq> mem_sessionId m"
    using assms(2) by (metis image_eqI)
  ultimately show ?thesis
    using assms(1)
    by (auto simp: grouped_def count_memory_def new_session_def date_gt_def date_lt_def Let_def)
qed

lemma grouped_other:
  assumes "grouped ms k s" "mem_sessionId m \<noteq> k"
  shows "grouped (ms @ [m]) k s"
  using assms by (auto simp: grouped_def)

lemma grouped_same:
  assumes "grouped ms k s" "mem_sessionId m = k" "mem_timestamp m = Some t"
  shows "grouped (ms @ [m]) k (count_memory m s)"
proof -
  from assms(1) obtain lo hi where
    lo: "ses_createdAt s = Some lo"
      "\<exists>x \<in> set ms. mem_sessionId x = k \<and> mem_timestamp x = Some lo"
      "\<forall>x \<in> set ms. mem_sessionId x = k \<longrightarrow> (\<exists>t'. mem_timestamp x = Some t' \<and> lo \<le> t')"
    and hi: "ses_lastActive s = Some hi"
      "\<exists>x \<in> set ms. mem_sessionId x = k \<and> mem_timestamp x = Some hi"
      "\<forall>x \<in> set ms. mem_sessionId x = k \<longrightarrow> (\<exists>t'. mem_timestamp x = Some t' \<and> t' \<le> hi)"
    and more: "ses_id s = k" "ses_memoryCount s = length (filter (\<lambda>m. mem_sessionId m = k) ms)"
    unfolding grouped_def by blast
  have lohi: "lo \<le> hi" using lo(2) hi(3) by fastforce
  show ?thesis
  proof (cases "hi < t")
    case True
    then have "\<not> t < lo" using lohi by simp
    with True lo hi more assms(2,3) show ?thesis
      unfolding grouped_def count_memory_def date_gt_def date_lt_def Let_def
      by (simp add: ball_Un bex_Un) (metis less_imp_le order_trans)
  next
    case False
    note nothi = this
    show ?thesis
    proof (cases "t < lo")
      case True
      with nothi lo hi more assms(2,3) show ?thesis
        unfolding grouped_def count_memory_def date_gt_def date_lt_def Let_def
        by (simp add: ball_Un bex_Un) (metis less_imp_le order_trans)
    next
      case False
      with nothi lo hi more assms(2,3) show ?thesis
        unfolding grouped_def count_memory_def date_gt_def date_lt_def Let_def
        by (simp add: ball_Un bex_Un not_less)
    qed
  qed
qed


lemma group_memory_ok:
  assumes ok: "session_map_ok ms sm" and ts: "mem_timestamp m = Some t"
  shows "session_map_ok (ms @ [m]) (group_memory sm m)"
proof -
  let ?k = "mem_sessionId m"
  from ok have d: "distinct (map fst sm)" and keys: "fst ` set sm = mem_sessionId ` set ms"
    and g: "\<And>k s. (k, s) \<in> set sm \<Longrightarrow> grouped ms k s"
    unfolding session_map_ok_def by auto
  show ?thesis
  proof (cases "map_of sm ?k")
    case None
    then have new: "?k \<notin> mem_sessionId ` set ms"
      using keys by (simp add: map_of_eq_None_iff)
    let ?sm = "sm @ [(?k, new_session m)]"
    have d': "distinct (map fst ?sm)" using d None by (simp add: map_of_eq_None_iff)
    have gm: "group_memory sm m = AList.map_entry ?k (count_memory m) ?sm"
      using None by (simp add: group_memory_def)
    have "\<And>k s. (k, s) \<in> set (group_memory sm m) \<Longrightarrow> grouped (ms @ [m]) k s"
    proof -
      fix k s assume "(k, s) \<in> set (group_memory sm m)"
      then have mo: "map_of (AList.map_entry ?k (count_memory m) ?sm) k = Some s"
        unfolding gm using d' by (simp add: distinct_map_entry)
      show "grouped (ms @ [m]) k s"
      proof (cases "k = ?k")
        case True
        have "map_of ?sm ?k = Some (new_session m)" using None by (simp add: map_add_Some_iff)
        with mo True have "s = count_memory m (new_session m)"
          by (simp add: map_of_map_entry)
        with True grouped_new[OF ts new] show ?thesis by simp
      next
        case False
        with mo have "map_of ?sm k = Some s" by (simp add: map_of_map_entry)
        with False have "(k, s) \<in> set sm" by (auto simp: map_add_Some_iff dest: map_of_SomeD split: if_splits)
        from grouped_other[OF g[OF this]] False show ?thesis by simp
      qed
    qed
    moreover have "distinct (map fst (group_memory sm m))"
      unfolding gm using d' by (rule distinct_map_entry)
    moreover have "fst ` set (group_memory sm m) = mem_sessionId ` set (ms @ [m])"
      unfolding gm using keys by (simp add: dom_map_entry)
    ultimately show ?thesis unfolding session_map_ok_def by auto
  next
    case (Some s0)
    then have in0: "(?k, s0) \<in> set sm" by (rule map_of_SomeD)
    have gm: "group_memory sm m = AList.map_entry ?k (count_memory m) sm"
      using Some by (simp add: group_memory_def)
    have "\<And>k s. (k, s) \<in> set (group_memory sm m) \<Longrightarrow> grouped (ms @ [m]) k s"
    proof -
      fix k s assume "(k, s) \<in> set (group_memory sm m)"
      then have mo: "map_of (AList.map_entry ?k (count_memory m) sm) k = Some s"
        unfolding gm using d by (simp add: distinct_map_entry)
      show "grouped (ms @ [m]) k s"
      proof (cases "k = ?k")
        case True
        with mo Some have "s = count_memory m s0" by (simp add: map_of_map_entry)
        with True grouped_same[OF g[OF in0] refl ts] show ?thesis by simp
      next
        case False
        with mo have "map_of sm k = Some s" by (simp add: map_of_map_entry)
        then have "(k, s) \<in> set sm" by (rule map_of_SomeD)
        from grouped_other[OF g[OF this]] False show ?thesis by simp
      qed
    qed
    moreover have "distinct (map fst (group_memory sm m))"
      unfolding gm using d by (rule distinct_map_entry)
    moreover have "fst ` set (group_memory sm m) = mem_sessionId ` set (ms @ [m])"
      unfolding gm using keys in0 by (force simp: dom_map_entry)
    ultimately show ?thesis unfolding session_map_ok_def by auto
  qed
qed

lemma foldl_group_memory_ok:
  "session_map_ok seen sm \<Longrightarrow> \<forall>m \<in> set ms. mem_timestamp m \<noteq> None \<Longrightarrow>
   session_map_ok (seen @ ms) (foldl group_memory sm ms)"
proof (induction ms arbitrary: seen sm)
  case Nil
  then show ?case by simp
next
  case (Cons m ms)
  from Cons.prems(2) obtain t where "mem_timestamp m = Some t" by auto
  from group_memory_ok[OF Cons.prems(1) this] Cons.prems(2)
  have "session_map_ok ((seen @ [m]) @ ms) (foldl group_memory (group_memory sm m) ms)"
    by (intro Cons.IH) auto
  then show ?case by simp
qed


lemma session_map_ok_Nil: "session_map_ok [] []"
  by (simp add: session_map_ok_def)

text \<open>
  C8. When the recall for the user (limit 10000) answers with the list \<open>memories\<close>, all
  with valid dates, the listing holds exactly one entry per session id that occurs among
  them; the entry's memory count is the number of memories of that session, its creation
  time the minimum and its last-active time the maximum of their timestamps.
\<close>

theorem getUserSessions_groups_by_session:
  assumes recall: "mindcache_recall core c (Some userId) None None 10000 = (FfiJson memories, c')"
    and dates: "\<forall>m \<in> set memories. mem_timestamp m \<noteq> None"
  shows "\<exists>sessions.
           getUserSessions core (Some c) userId = (Inr sessions, Some c')
         \<and> distinct (map ses_id sessions)
         \<and> set (map ses_id sessions) = mem_sessionId ` set memories
         \<and> (\<forall>s \<in> set sessions.
               ses_memoryCount s = length (filter (\<lambda>m. mem_sessionId m = ses_id s) memories)
             \<and> ses_createdAt s =
                 Some (Min {t. \<exists>m \<in> set memories. mem_sessionId m = ses_id s \<and> mem_timestamp m = Some t})
             \<and> ses_lastActive s =
                 Some (Max {t. \<exists>m \<in> set memories. mem_sessionId m = ses_id s \<and> mem_timestamp m = Some t}))"
proof -
  let ?sm = "foldl group_memory [] memories"
  have run: "getUserSessions core (Some c) userId = (Inr (map snd ?sm), Some c')"
    using recall by (simp add: getUserSessions_def recallMemories_def user_filter_def)
  from foldl_group_memory_ok[OF session_map_ok_Nil dates]
  have ok: "session_map_ok memories ?sm" by simp
  then have d: "distinct (map fst ?sm)" and keys: "fst ` set ?sm = mem_sessionId ` set memories"
    and g: "\<And>k s. (k, s) \<in> set ?sm \<Longrightarrow> grouped memories k s"
    unfolding session_map_ok_def by auto
  have ids: "map ses_id (map snd ?sm) = map fst ?sm"
  proof -
    have "ses_id (snd p) = fst p" if "p \<in> set ?sm" for p
    proof -
      from that have "(fst p, snd p) \<in> set ?sm" by simp
      from g[OF this] show ?thesis by (simp add: grouped_def)
    qed
    then show ?thesis by simp
  qed
  have each: "ses_memoryCount s = length (filter (\<lambda>m. mem_sessionId m = ses_id s) memories)
             \<and> ses_createdAt s =
                 Some (Min {t. \<exists>m \<in> set memories. mem_sessionId m = ses_id s \<and> mem_timestamp m = Some t})
             \<and> ses_lastActive s =
                 Some (Max {t. \<exists>m \<in> set memories. mem_sessionId m = ses_id s \<and> mem_timestamp m = Some t})"
    if "s \<in> set (map snd ?sm)" for s
  proof -
    from that obtain k where "(k, s) \<in> set ?sm" by auto
    from g[OF this] have gr: "grouped memories (ses_id s) s" by (simp add: grouped_def)
    let ?T = "{t. \<exists>m \<in> set memories. mem_sessionId m = ses_id s \<and> mem_timestamp m = Some t}"
    from gr obtain lo where lo1: "ses_createdAt s = Some lo"
      and lo2: "\<exists>m \<in> set memories. mem_sessionId m = ses_id s \<and> mem_timestamp m = Some lo"
      and lo3: "\<forall>m \<in> set memories. mem_sessionId m = ses_id s
                  \<longrightarrow> (\<exists>t'. mem_timestamp m = Some t' \<and> lo \<le> t')"
      unfolding grouped_def by blast
    have lo: "ses_createdAt s = Some lo" "lo \<in> ?T" "\<forall>t \<in> ?T. lo \<le> t"
      using lo1 lo2 lo3 by auto
    from gr obtain hi where hi1: "ses_lastActive s = Some hi"
      and hi2: "\<exists>m \<in> set memories. mem_sessionId m = ses_id s \<and> mem_timestamp m = Some hi"
      and hi3: "\<forall>m \<in> set memories. mem_sessionId m = ses_id s
                  \<longrightarrow> (\<exists>t'. mem_timestamp m = Some t' \<and> t' \<le> hi)"
      unfolding grouped_def by blast
    have hi: "ses_lastActive s = Some hi" "hi \<in> ?T" "\<forall>t \<in> ?T. t \<le> hi"
      using hi1 hi2 hi3 by auto
    have "Min ?T = lo" using lo(2,3) by (intro Min_eqI) auto
    moreover have "Max ?T = hi" using hi(2,3) by (intro Max_eqI) auto
    ultimately show ?thesis using lo(1) hi(1) gr by (simp add: grouped_def)
  qed
  show ?thesis
  proof (intro exI conjI)
    show "getUserSessions core (Some c) userId = (Inr (map snd ?sm), Some c')" by (rule run)
    show "distinct (map ses_id (map snd ?sm))" unfolding ids by (rule d)
    show "set (map ses_id (map snd ?sm)) = mem_sessionId ` set memories"
      unfolding ids using keys by simp
    show "\<forall>s \<in> set (map snd ?sm).
               ses_memoryCount s = length (filter (\<lambda>m. mem_sessionId m = ses_id s) memories)
             \<and> ses_createdAt s =
                 Some (Min {t. \<exists>m \<in> set memories. mem_sessionId m = ses_id s \<and> mem_timestamp m = Some t})
             \<and> ses_lastActive s =
                 Some (Max {t. \<exists>m \<in> set memories. mem_sessionId m = ses_id s \<and> mem_timestamp m = Some t})"
      using each by blast
  qed
qed

theorem getUserSessions_groups_by_session_witness:
  "mindcache_recall mem_core two_sessions (Some ''u2'') None None 10000
     = (FfiJson [mem_c, mem_b, mem_a], two_sessions)
   \<and> getUserSessions mem_core (Some two_sessions) ''u2''
     = (Inr [\<lparr>ses_id = ''s1'', ses_userId = ''u2'', ses_createdAt = Some 1000,
              ses_lastActive = Some 3000, ses_memoryCount = 2\<rparr>,
             \<lparr>ses_id = ''s2'', ses_userId = ''u2'', ses_createdAt = Some 2000,
              ses_lastActive = Some 2000, ses_memoryCount = 1\<rparr>], Some two_sessions)
   \<and> (\<exists>sessions.
          getUserSessions mem_core (Some two_sessions) ''u2'' = (Inr sessions, Some two_sessions)
        \<and> distinct (map ses_id sessions)
        \<and> set (map ses_id sessions) = mem_sessionId ` set [mem_c, mem_b, mem_a])"
proof -
  have r: "mindcache_recall mem_core two_sessions (Some ''u2'') None None 10000
             = (FfiJson [mem_c, mem_b, mem_a], two_sessions)"
    by (simp add: eval_core)
  have v: "\<forall>m \<in> set [mem_c, mem_b, mem_a]. mem_timestamp m \<noteq> None"
    by (simp add: mem_a_def mem_b_def mem_c_def)
  have e: "getUserSessions mem_core (Some two_sessions) ''u2''
     = (Inr [\<lparr>ses_id = ''s1'', ses_userId = ''u2'', ses_createdAt = Some 1000,
              ses_lastActive = Some 3000, ses_memoryCount = 2\<rparr>,
             \<lparr>ses_id = ''s2'', ses_userId = ''u2'', ses_createdAt = Some 2000,
              ses_lastActive = Some 2000, ses_memoryCount = 1\<rparr>], Some two_sessions)"
    using r
    by (simp add: getUserSessions_def recallMemories_def user_filter_def group_memory_def
        count_memory_def new_session_def date_gt_def date_lt_def mem_a_def mem_b_def mem_c_def)
  from getUserSessions_groups_by_session[OF r v] r e show ?thesis by blast
qed

section \<open>Deleting a session\<close>

text \<open>
  Whatever the core's recall preserves is preserved by the bridge's recall, by the session
  lookup and by both layers of session deletion: none of them calls another entry point.
\<close>

lemma recallMemories_frame:
  assumes "\<And>c u q s l. P c \<Longrightarrow> P (snd (mindcache_recall core c u q s l))" and "P c"
  shows "\<exists>c'. snd (recallMemories core (Some c) flt) = Some c' \<and> P c'"
proof -
  obtain r c' where rc: "mindcache_recall core c (flt_userId flt) (flt_query flt) (flt_sessionId flt)
      (case flt_limit flt of None \<Rightarrow> 50 | Some l \<Rightarrow> l) = (r, c')"
    by (cases "mindcache_recall core c (flt_userId flt) (flt_query flt) (flt_sessionId flt)
      (case flt_limit flt of None \<Rightarrow> 50 | Some l \<Rightarrow> l)")
  from assms(1)[OF assms(2), of "flt_userId flt" "flt_query flt" "flt_sessionId flt"
      "case flt_limit flt of None \<Rightarrow> 50 | Some l \<Rightarrow> l"] rc
  have "P c'" by simp
  with rc show ?thesis by (cases r) (simp_all add: recallMemories_def)
qed

lemma getSession_frame:
  assumes step: "\<And>c u q s l. P c \<Longrightarrow> P (snd (mindcache_recall core c u q s l))" and "P c"
  shows "\<exists>c'. snd (getSession core (Some c) sid) = Some c' \<and> P c'"
proof -
  obtain r1 b1 where r1: "recallMemories core (Some c) (session_filter None sid 1) = (r1, b1)"
    by (cases "recallMemories core (Some c) (session_filter None sid 1)")
  from recallMemories_frame[of P core c "session_filter None sid 1", OF step assms(2)] r1
  obtain c1 where c1: "b1 = Some c1" "P c1" by auto
  show ?thesis
  proof (cases r1)
    case (Inl e)
    with r1 c1 show ?thesis by (simp add: getSession_def)
  next
    case (Inr ms)
    show ?thesis
    proof (cases ms)
      case Nil
      with Inr r1 c1 show ?thesis by (simp add: getSession_def)
    next
      case (Cons first rest)
      let ?f2 = "session_filter (Some (mem_userId first)) sid 10000"
      obtain r2 b2 where r2: "recallMemories core (Some c1) ?f2 = (r2, b2)"
        by (cases "recallMemories core (Some c1) ?f2")
      from recallMemories_frame[of P core c1 ?f2, OF step c1(2)] r2
      obtain c2 where c2: "b2 = Some c2" "P c2" by auto
      from Cons Inr r1 c1 r2 c2 show ?thesis
        by (cases r2) (simp_all add: getSession_def)
    qed
  qed
qed

lemma deleteSession_frame:
  assumes step: "\<And>c u q s l. P c \<Longrightarrow> P (snd (mindcache_recall core c u q s l))" and "P c"
  shows "\<exists>c'. snd (deleteSession core (Some c) sid) = Some c' \<and> P c'"
proof -
  obtain r b1 where g: "getSession core (Some c) sid = (r, b1)"
    by (cases "getSession core (Some c) sid")
  from getSession_frame[of P core c sid, OF step assms(2)] g
  obtain c1 where "b1 = Some c1" "P c1" by auto
  with g show ?thesis
    by (cases r) (auto simp: deleteSession_def split: option.splits)
qed

text \<open>
  C3. The claim asks that a confirmed deletion of an owned session remove its memories.
  The bridge's \<^verbatim>\<open>deleteSession\<close> is a placeholder that only looks the session up: for
  every core, every property of the core state that recalls preserve (such as "this
  memory is stored") still holds after the controller has answered, whatever the request.
\<close>

theorem deleteSession_only_recalls:
  assumes step: "\<forall>c u q s l. P c \<longrightarrow> P (snd (mindcache_recall core c u q s l))"
    and start: "P c"
  shows "\<exists>c'. snd (deleteSession_ctl core (Some c) req) = Some c' \<and> P c'"
proof (cases "dr_confirm req = Some ''true''")
  case False
  with start show ?thesis by (simp add: deleteSession_ctl_def)
next
  case True
  from step have keep: "\<And>c u q s l. P c \<Longrightarrow> P (snd (mindcache_recall core c u q s l))"
    by blast
  obtain r b1 where g: "getSession core (Some c) (dr_sessionId req) = (r, b1)"
    by (cases "getSession core (Some c) (dr_sessionId req)")
  from getSession_frame[of P core c "dr_sessionId req", OF keep start] g
  obtain c1 where c1: "b1 = Some c1" "P c1" by auto
  obtain r2 b2 where d: "deleteSession core (Some c1) (dr_sessionId req) = (r2, b2)"
    by (cases "deleteSession core (Some c1) (dr_sessionId req)")
  from deleteSession_frame[of P core c1 "dr_sessionId req", OF keep c1(2)] d
  obtain c2 where c2: "b2 = Some c2" "P c2" by auto
  from True g c1 d c2 show ?thesis
    by (cases r; cases r2) (auto simp: deleteSession_ctl_def split: option.splits)
qed

lemmas eval_sessions =
  getSession_def deleteSession_def deleteSession_ctl_def recallMemories_def session_filter_def
  confirmation_required_def session_not_found_def session_access_denied_def
  session_delete_error_def createError_def message_or_def

text \<open>
  On the example store: the owner's confirmed request is answered with two memories
  deleted, the store is what it was, and the session's memories are recalled as before.
\<close>

theorem deleteSession_only_recalls_witness:
  "deleteSession_ctl mem_core (Some two_sessions)
      \<lparr>dr_userId = ''u2'', dr_sessionId = ''s1'', dr_confirm = Some ''true''\<rparr>
     = (Inr (200, \<lparr>dd_sessionId = ''s1'', dd_userId = ''u2'', dd_memoriesDeleted = 2\<rparr>),
        Some two_sessions)
   \<and> recallMemories mem_core (Some two_sessions) (session_filter (Some ''u2'') ''s1'' 50)
     = (Inr [mem_c, mem_a], Some two_sessions)"
proof -
  let ?req = "\<lparr>dr_userId = ''u2'', dr_sessionId = ''s1'', dr_confirm = Some ''true''\<rparr>"
  have ro: "\<forall>c u q s l. c = two_sessions \<longrightarrow> snd (mindcache_recall mem_core c u q s l) = two_sessions"
    by (simp add: mem_core_def mem_recall_def split: option.splits)
  from deleteSession_only_recalls[of "\<lambda>c. c = two_sessions" mem_core two_sessions ?req, OF ro]
  have st: "snd (deleteSession_ctl mem_core (Some two_sessions) ?req) = Some two_sessions"
    by simp
  have "fst (deleteSession_ctl mem_core (Some two_sessions) ?req)
          = Inr (200, \<lparr>dd_sessionId = ''s1'', dd_userId = ''u2'', dd_memoriesDeleted = 2\<rparr>)"
    by (simp add: eval_sessions eval_core)
  moreover have "recallMemories mem_core (Some two_sessions) (session_filter (Some ''u2'') ''s1'' 50)
     = (Inr [mem_c, mem_a], Some two_sessions)"
    by (simp add: eval_sessions eval_core)
  ultimately show ?thesis using st by (simp add: prod_eq_iff)
qed






section \<open>Repeated saves\<close>

lemma post_memory_save_valid:
  assumes d: "memorySave_details (req_body req) = []"
    and s: "sb_sessionId (req_body req) = Some sid" and t: "\<not> trim_empty sid"
  shows "post_memory_save core None req
           = (Inl (createError (err_message not_initialized) ''MEMORY_SAVE_ERROR'' 500), None)"
    and "post_memory_save core (Some c) req =
          (case mindcache_save core c (sb_userId (req_body req)) (Some sid) (sb_content (req_body req))
                  (case sb_metadata (req_body req) of None \<Rightarrow> ''{}'' | Some j \<Rightarrow> j) of
             (None, c') \<Rightarrow>
               (Inl (createError (err_message save_failed) ''MEMORY_SAVE_ERROR'' 500), Some c')
           | (Some memoryId, c') \<Rightarrow>
               if memoryId = []
               then (Inl (createError (err_message save_failed) ''MEMORY_SAVE_ERROR'' 500), Some c')
               else (Inr (201, Saved \<lparr>sd_memoryId = memoryId, sd_userId = sb_userId (req_body req),
                                        sd_sessionId = Some sid\<rparr>), Some c'))"
proof -
  have ne: "sid \<noteq> []"
    using t by (auto simp: trim_empty_def)
  have v: "validateMemorySave (req_body req) = Inr (req_body req)"
    using d by (simp add: validateMemorySave_def)
  have m: "(case sb_metadata (req_body req) of None \<Rightarrow> ''{}'' | Some j \<Rightarrow> j)
           = (case sa_metadata (save_args_of (req_body req)) of None \<Rightarrow> ''{}'' | Some j \<Rightarrow> j)"
    by (simp add: save_args_of_def)
  show "post_memory_save core None req
           = (Inl (createError (err_message not_initialized) ''MEMORY_SAVE_ERROR'' 500), None)"
    using s t ne v
    by (simp add: post_memory_save_def saveMemory_ctl_def saveMemory_def message_or_def
        not_initialized_def Error_def)
  obtain res c' where call:
    "mindcache_save core c (sb_userId (req_body req)) (Some sid) (sb_content (req_body req))
       (case sb_metadata (req_body req) of None \<Rightarrow> ''{}'' | Some j \<Rightarrow> j) = (res, c')"
    by (cases "mindcache_save core c (sb_userId (req_body req)) (Some sid) (sb_content (req_body req))
       (case sb_metadata (req_body req) of None \<Rightarrow> ''{}'' | Some j \<Rightarrow> j)")
  then have sv: "saveMemory core (Some c) (save_args_of (req_body req))
       = (case res of None \<Rightarrow> (Inl save_failed, Some c')
          | Some result \<Rightarrow> if result = [] then (Inl save_failed, Some c') else (Inr result, Some c'))"
    using s by (simp add: saveMemory_def save_args_of_def)
  show "post_memory_save core (Some c) req =
          (case mindcache_save core c (sb_userId (req_body req)) (Some sid) (sb_content (req_body req))
                  (case sb_metadata (req_body req) of None \<Rightarrow> ''{}'' | Some j \<Rightarrow> j) of
             (None, c') \<Rightarrow>
               (Inl (createError (err_message save_failed) ''MEMORY_SAVE_ERROR'' 500), Some c')
           | (Some memoryId, c') \<Rightarrow>
               if memoryId = []
               then (Inl (createError (err_message save_failed) ''MEMORY_SAVE_ERROR'' 500), Some c')
               else (Inr (201, Saved \<lparr>sd_memoryId = memoryId, sd_userId = sb_userId (req_body req),
                                        sd_sessionId = Some sid\<rparr>), Some c'))"
    unfolding call using s t ne v sv
    by (cases res)
       (simp_all add: post_memory_save_def saveMemory_ctl_def message_or_def save_failed_def Error_def)
qed


text \<open>
  C6, as amended. A save is not deduplicated on a request id. For every core:
  \<^item> the answer to a save request and the state it leaves do not depend on its request id;
  \<^item> a request that fails validation is answered 400 with the details and leaves the
    state as it was;
  \<^item> a request that passes validation, with a session id that is not blank, is answered
    500 \<^verbatim>\<open>MEMORY_SAVE_ERROR\<close> when the bridge is not initialised; on an initialised bridge
    it makes one call of \<^verbatim>\<open>mindcache_save\<close> in the current state, with the user id, the
    session id, the content and the metadata text, and leaves the state that this call
    leaves; it answers 201 with the id the call returns, and 500 \<^verbatim>\<open>MEMORY_SAVE_ERROR\<close>
    when the call returns \<^verbatim>\<open>null\<close> or an empty id;
  \<^item> so when such a request is sent again, with the same request id or with another, the
    core is called a second time, in the state the first call left, and the second answer
    carries the id that this second call returns.
\<close>

theorem save_request_reaches_core_once:
  "post_memory_save core b (req\<lparr>req_id := r\<rparr>) = post_memory_save core b req
   \<and> (memorySave_details (req_body req) \<noteq> []
      \<longrightarrow> post_memory_save core b req
            = (Inr (400, ValidationFailed (memorySave_details (req_body req))), b))
   \<and> (memorySave_details (req_body req) = []
       \<and> sb_sessionId (req_body req) = Some sid \<and> \<not> trim_empty sid
      \<longrightarrow> post_memory_save core None req
            = (Inl (createError (err_message not_initialized) ''MEMORY_SAVE_ERROR'' 500), None)
          \<and> post_memory_save core (Some c) req =
              (case mindcache_save core c (sb_userId (req_body req)) (Some sid) (sb_content (req_body req))
            (case sb_metadata (req_body req) of None \<Rightarrow> ''{}'' | Some j \<Rightarrow> j) of
                 (None, c') \<Rightarrow>
                   (Inl (createError (err_message save_failed) ''MEMORY_SAVE_ERROR'' 500), Some c')
               | (Some memoryId, c') \<Rightarrow>
                   if memoryId = []
                   then (Inl (createError (err_message save_failed) ''MEMORY_SAVE_ERROR'' 500), Some c')
                   else (Inr (201, Saved \<lparr>sd_memoryId = memoryId,
                                            sd_userId = sb_userId (req_body req),
                                            sd_sessionId = Some sid\<rparr>), Some c')))
   \<and> (memorySave_details (req_body req) = []
       \<and> sb_sessionId (req_body req) = Some sid \<and> \<not> trim_empty sid
       \<and> mindcache_save core c (sb_userId (req_body req)) (Some sid) (sb_content (req_body req))
            (case sb_metadata (req_body req) of None \<Rightarrow> ''{}'' | Some j \<Rightarrow> j) = (Some id1, c1)
       \<and> id1 \<noteq> []
       \<and> mindcache_save core c1 (sb_userId (req_body req)) (Some sid) (sb_content (req_body req))
            (case sb_metadata (req_body req) of None \<Rightarrow> ''{}'' | Some j \<Rightarrow> j) = (Some id2, c2)
       \<and> id2 \<noteq> []
      \<longrightarrow> post_memory_save core (Some c) (req\<lparr>req_id := r1\<rparr>)
            = (Inr (201, Saved \<lparr>sd_memoryId = id1, sd_userId = sb_userId (req_body req),
                                 sd_sessionId = Some sid\<rparr>), Some c1)
          \<and> post_memory_save core (Some c1) (req\<lparr>req_id := r2\<rparr>)
            = (Inr (201, Saved \<lparr>sd_memoryId = id2, sd_userId = sb_userId (req_body req),
                                 sd_sessionId = Some sid\<rparr>), Some c2))"
proof (intro conjI impI)
  show "post_memory_save core b (req\<lparr>req_id := r\<rparr>) = post_memory_save core b req"
    by (simp add: post_memory_save_def)
next
  assume "memorySave_details (req_body req) \<noteq> []"
  then show "post_memory_save core b req
            = (Inr (400, ValidationFailed (memorySave_details (req_body req))), b)"
    by (cases "memorySave_details (req_body req)")
       (simp_all add: post_memory_save_def validateMemorySave_def)
next
  assume a: "memorySave_details (req_body req) = []
       \<and> sb_sessionId (req_body req) = Some sid \<and> \<not> trim_empty sid"
  then show "post_memory_save core None req
            = (Inl (createError (err_message not_initialized) ''MEMORY_SAVE_ERROR'' 500), None)"
    by (intro post_memory_save_valid(1)[where sid = sid]) simp_all
next
  assume a: "memorySave_details (req_body req) = []
       \<and> sb_sessionId (req_body req) = Some sid \<and> \<not> trim_empty sid"
  then show "post_memory_save core (Some c) req =
              (case mindcache_save core c (sb_userId (req_body req)) (Some sid) (sb_content (req_body req))
            (case sb_metadata (req_body req) of None \<Rightarrow> ''{}'' | Some j \<Rightarrow> j) of
                 (None, c') \<Rightarrow>
                   (Inl (createError (err_message save_failed) ''MEMORY_SAVE_ERROR'' 500), Some c')
               | (Some memoryId, c') \<Rightarrow>
                   if memoryId = []
                   then (Inl (createError (err_message save_failed) ''MEMORY_SAVE_ERROR'' 500), Some c')
                   else (Inr (201, Saved \<lparr>sd_memoryId = memoryId,
                                            sd_userId = sb_userId (req_body req),
                                            sd_sessionId = Some sid\<rparr>), Some c'))"
    by (intro post_memory_save_valid(2)) simp_all
next
  assume a: "memorySave_details (req_body req) = []
       \<and> sb_sessionId (req_body req) = Some sid \<and> \<not> trim_empty sid
       \<and> mindcache_save core c (sb_userId (req_body req)) (Some sid) (sb_content (req_body req))
            (case sb_metadata (req_body req) of None \<Rightarrow> ''{}'' | Some j \<Rightarrow> j) = (Some id1, c1)
       \<and> id1 \<noteq> []
       \<and> mindcache_save core c1 (sb_userId (req_body req)) (Some sid) (sb_content (req_body req))
            (case sb_metadata (req_body req) of None \<Rightarrow> ''{}'' | Some j \<Rightarrow> j) = (Some id2, c2)
       \<and> id2 \<noteq> []"
  have "post_memory_save core (Some c) (req\<lparr>req_id := r1\<rparr>) = post_memory_save core (Some c) req"
    by (simp add: post_memory_save_def)
  also have "\<dots> = (Inr (201, Saved \<lparr>sd_memoryId = id1, sd_userId = sb_userId (req_body req),
                                 sd_sessionId = Some sid\<rparr>), Some c1)"
    using a post_memory_save_valid(2)[of req sid core c] by simp
  finally show "post_memory_save core (Some c) (req\<lparr>req_id := r1\<rparr>)
            = (Inr (201, Saved \<lparr>sd_memoryId = id1, sd_userId = sb_userId (req_body req),
                                 sd_sessionId = Some sid\<rparr>), Some c1)" .
next
  assume a: "memorySave_details (req_body req) = []
       \<and> sb_sessionId (req_body req) = Some sid \<and> \<not> trim_empty sid
       \<and> mindcache_save core c (sb_userId (req_body req)) (Some sid) (sb_content (req_body req))
            (case sb_metadata (req_body req) of None \<Rightarrow> ''{}'' | Some j \<Rightarrow> j) = (Some id1, c1)
       \<and> id1 \<noteq> []
       \<and> mindcache_save core c1 (sb_userId (req_body req)) (Some sid) (sb_content (req_body req))
            (case sb_metadata (req_body req) of None \<Rightarrow> ''{}'' | Some j \<Rightarrow> j) = (Some id2, c2)
       \<and> id2 \<noteq> []"
  have "post_memory_save core (Some c1) (req\<lparr>req_id := r2\<rparr>) = post_memory_save core (Some c1) req"
    by (simp add: post_memory_save_def)
  also have "\<dots> = (Inr (201, Saved \<lparr>sd_memoryId = id2, sd_userId = sb_userId (req_body req),
                                 sd_sessionId = Some sid\<rparr>), Some c2)"
    using a post_memory_save_valid(2)[of req sid core c1] by simp
  finally show "post_memory_save core (Some c1) (req\<lparr>req_id := r2\<rparr>)
            = (Inr (201, Saved \<lparr>sd_memoryId = id2, sd_userId = sb_userId (req_body req),
                                 sd_sessionId = Some sid\<rparr>), Some c2)" .
qed


text \<open>
  On the in-memory core: two requests with the same body are stored under two ids, a
  request sent to a bridge that is not initialised is answered 500, and a request with
  empty content is answered 400 and stores nothing.
\<close>

theorem save_request_reaches_core_once_witness:
  "post_memory_save mem_core (Some empty_store) (save_hello\<lparr>req_id := Some ''r1''\<rparr>)
     = (Inr (201, Saved \<lparr>sd_memoryId = ''mem_0000000000'', sd_userId = Some ''u1'',
                          sd_sessionId = Some ''s1''\<rparr>),
        Some \<lparr>st_memories = [hello 0], st_next = 1, st_now = 1000\<rparr>)
   \<and> post_memory_save mem_core (Some \<lparr>st_memories = [hello 0], st_next = 1, st_now = 1000\<rparr>)
        (save_hello\<lparr>req_id := Some ''r2''\<rparr>)
     = (Inr (201, Saved \<lparr>sd_memoryId = ''mem_0000000001'', sd_userId = Some ''u1'',
                          sd_sessionId = Some ''s1''\<rparr>),
        Some \<lparr>st_memories = [hello 0, hello 1], st_next = 2, st_now = 1000\<rparr>)
   \<and> post_memory_save mem_core None save_hello
     = (Inl (createError ''Rust bridge not initialized. Call initialize() first.''
               ''MEMORY_SAVE_ERROR'' 500), None)
   \<and> post_memory_save mem_core (Some empty_store) \<lparr>req_id = Some ''r1'', req_body = empty_content\<rparr>
     = (Inr (400, ValidationFailed [(''content'', ''string.empty'')]), Some empty_store)"
proof -
  let ?c1 = "\<lparr>st_memories = [hello 0], st_next = 1, st_now = 1000\<rparr>"
  let ?c2 = "\<lparr>st_memories = [hello 0, hello 1], st_next = 2, st_now = 1000\<rparr>"
  have sv1: "mindcache_save mem_core empty_store (sb_userId (req_body save_hello)) (Some ''s1'')
              (sb_content (req_body save_hello))
              (case sb_metadata (req_body save_hello) of None \<Rightarrow> ''{}'' | Some j \<Rightarrow> j)
            = (Some ''mem_0000000000'', ?c1)"
    by (simp add: eval_core eval_save record_ids)
  have sv2: "mindcache_save mem_core ?c1 (sb_userId (req_body save_hello)) (Some ''s1'')
              (sb_content (req_body save_hello))
              (case sb_metadata (req_body save_hello) of None \<Rightarrow> ''{}'' | Some j \<Rightarrow> j)
            = (Some ''mem_0000000001'', ?c2)"
    by (simp add: eval_core eval_save record_ids)
  have d: "memorySave_details (req_body save_hello) = []"
    by (simp add: eval_save)
  have t: "\<not> trim_empty ''s1''" by (simp add: trim_empty_def is_space_def)
  have d': "memorySave_details empty_content = [(''content'', ''string.empty'')]"
    by (simp add: eval_save empty_content_def)
  from save_request_reaches_core_once[where core = mem_core and req = save_hello
      and sid = "''s1''" and c = empty_store and ?id1.0 = "''mem_0000000000''" and ?c1.0 = ?c1
      and ?id2.0 = "''mem_0000000001''" and ?c2.0 = ?c2
      and ?r1.0 = "Some ''r1''" and ?r2.0 = "Some ''r2''"] sv1 sv2 d t
  have two: "post_memory_save mem_core (Some empty_store) (save_hello\<lparr>req_id := Some ''r1''\<rparr>)
     = (Inr (201, Saved \<lparr>sd_memoryId = ''mem_0000000000'', sd_userId = Some ''u1'',
                          sd_sessionId = Some ''s1''\<rparr>), Some ?c1)
   \<and> post_memory_save mem_core (Some ?c1) (save_hello\<lparr>req_id := Some ''r2''\<rparr>)
     = (Inr (201, Saved \<lparr>sd_memoryId = ''mem_0000000001'', sd_userId = Some ''u1'',
                          sd_sessionId = Some ''s1''\<rparr>), Some ?c2)"
    and none: "post_memory_save mem_core None save_hello
     = (Inl (createError ''Rust bridge not initialized. Call initialize() first.''
               ''MEMORY_SAVE_ERROR'' 500), None)"
    by (simp_all add: save_hello_def not_initialized_def Error_def)
  from save_request_reaches_core_once[where core = mem_core and b = "Some empty_store"
      and req = "\<lparr>req_id = Some ''r1'', req_body = empty_content\<rparr>"] d'
  have bad: "post_memory_save mem_core (Some empty_store) \<lparr>req_id = Some ''r1'', req_body = empty_content\<rparr>
     = (Inr (400, ValidationFailed [(''content'', ''string.empty'')]), Some empty_store)"
    by simp
  from two none bad show ?thesis by simp
qed

text \<open>
  C6 as stated fails on the in-memory core: the same request, with the same user and the
  same request id, sent twice is stored twice, under two different ids.
\<close>

theorem repeated_save_counterexample:
  "post_memory_save mem_core (Some empty_store) save_hello
     = (Inr (201, Saved \<lparr>sd_memoryId = ''mem_0000000000'', sd_userId = Some ''u1'',
                          sd_sessionId = Some ''s1''\<rparr>),
        Some \<lparr>st_memories = [hello 0], st_next = 1, st_now = 1000\<rparr>)
   \<and> post_memory_save mem_core (Some \<lparr>st_memories = [hello 0], st_next = 1, st_now = 1000\<rparr>)
        save_hello
     = (Inr (201, Saved \<lparr>sd_memoryId = ''mem_0000000001'', sd_userId = Some ''u1'',
                          sd_sessionId = Some ''s1''\<rparr>),
        Some \<lparr>st_memories = [hello 0, hello 1], st_next = 2, st_now = 1000\<rparr>)"
  by (simp add: eval_core eval_save record_ids)

section \<open>Summaries of empty sessions\<close>

lemma no_summary_message:
  "\<not> str_includes ''Failed to generate summary: No summary generated'' ''No memories found''"
  by code_simp

text \<open>
  C7. The controller answers \<^verbatim>\<open>SESSION_EMPTY\<close> exactly when the core returned a text
  that \<^verbatim>\<open>JSON.parse\<close> rejected and the bridge's message, built from the parse error,
  contains "No memories found". A null result, the only way a string-typed entry point
  can report a failure without a text, never yields \<^verbatim>\<open>SESSION_EMPTY\<close>.
\<close>

theorem summarize_error_mapping:
  "(\<exists>b'. summarizeSession_ctl core (Some c) sid = (Inl session_empty, b'))
     = (\<exists>msg c'. mindcache_summarize core c sid = (FfiMalformed msg, c')
                \<and> str_includes (''Failed to generate summary: '' @ msg) ''No memories found'')"
proof -
  obtain r c' where m: "mindcache_summarize core c sid = (r, c')"
    by (cases "mindcache_summarize core c sid")
  show ?thesis
  proof (cases r)
    case FfiNull
    with m show ?thesis
      using no_summary_message
      by (simp add: summarizeSession_ctl_def summarizeSession_def Error_def session_empty_def
          createError_def message_or_def)
  next
    case (FfiMalformed msg)
    with m show ?thesis
      by (simp add: summarizeSession_ctl_def summarizeSession_def Error_def session_empty_def
          createError_def message_or_def)
  next
    case (FfiJson s)
    with m show ?thesis
      by (simp add: summarizeSession_ctl_def summarizeSession_def)
  qed
qed

text \<open>
  On the in-memory core, which reports an empty session by a null result, the summary of a
  session without memories is answered with \<^verbatim>\<open>SUMMARY_ERROR\<close> (500).
\<close>

theorem summarize_empty_session_evaluated:
  "summarizeSession_ctl mem_core (Some two_sessions) (Some ''s9'')
     = (Inl \<lparr>err_message = ''Failed to generate summary: No summary generated'',
             err_code = Some ''SUMMARY_ERROR'', err_status = Some 500\<rparr>, Some two_sessions)"
  using no_summary_message
  by (simp add: summarizeSession_ctl_def summarizeSession_def Error_def createError_def
      message_or_def eval_core)


end
